theory Spec2Isabelle
  imports Complex_Main
begin

section \<open>Text and cells\<close>

text \<open>
  A Python \<open>str\<close> is a sequence of Unicode code points: \<open>len\<close> counts code points and
  \<open>strip\<close> removes Unicode white space. The header labels of the matrix are Japanese, so a
  string is modelled as the list of its code points. \<open>ascii\<close> turns an ASCII literal into
  such a list.
\<close>

type_synonym pystr = "nat list"

definition ascii :: "string \<Rightarrow> pystr" where
  "ascii s = map of_char s"

text \<open>
  \<open>str.isspace\<close> for one character: U+0009..U+000D, U+001C..U+0020, U+0085, U+00A0,
  U+1680, U+2000..U+200A, U+2028, U+2029, U+202F, U+205F and U+3000.
\<close>

definition is_space :: "nat \<Rightarrow> bool" where
  "is_space c =
     ((9 \<le> c \<and> c \<le> 13) \<or> (28 \<le> c \<and> c \<le> 32) \<or> c = 133 \<or> c = 160 \<or> c = 5760 \<or>
      (8192 \<le> c \<and> c \<le> 8202) \<or> c = 8232 \<or> c = 8233 \<or> c = 8239 \<or> c = 8287 \<or> c = 12288)"

definition strip :: "pystr \<Rightarrow> pystr" where
  "strip s = rev (dropWhile is_space (rev (dropWhile is_space s)))"

text \<open>
  A cell of a sheet read by pandas. The program looks at a cell in four ways only:
  \<open>value is None or pd.isna(value)\<close>, \<open>str(value)\<close>, \<open>int(float(value))\<close> and the
  comparison of a catalog key with a \<open>str\<close>. \<open>Missing\<close> is \<open>None\<close> or NaN, \<open>Text s\<close> is
  the \<open>str\<close> value \<open>s\<close>, and \<open>Other s\<close> is any other value (a number, a date, a boolean),
  given by the text that \<open>str\<close> renders for it.
\<close>

datatype cell = Missing | Text pystr | Other pystr

text \<open>
  The outcome of \<open>int(float(value))\<close>: an integer, a \<open>ValueError\<close> or \<open>TypeError\<close>
  (both are caught by \<open>safe_int\<close>), or an \<open>OverflowError\<close> (an infinite float, which
  \<open>safe_int\<close> does not catch).
\<close>

datatype conversion = Converted int | Rejected | Overflow

text \<open>
  What the program takes from the Python runtime and cannot be written without floating
  point or the Unicode database: the regular-expression class \<open>\d\<close> (the decimal digits
  of the runtime's Unicode version) and \<open>int(float(value))\<close> on a cell that is not missing.
  Every definition that depends on them takes the runtime as its first argument, and
  every theorem holds for all runtimes.
\<close>

record runtime =
  re_digit :: "nat \<Rightarrow> bool"
  int_float :: "cell \<Rightarrow> conversion"

datatype exc_class =
    PickingSystemError | FileNotFoundError | InvalidFileFormatError | ValidationError
  | MasterDBError | ProcessingError | ReferenceDBError | OutputError
  | IndexError | OverflowError

text \<open>
  An exception is its class and, where the program builds the message from a caught
  exception (\<open>raise MasterDBError(f"...: {e}")\<close>), the exception it was built from.
\<close>

datatype exc = Raised exc_class | Wrapping exc_class exc

fun class_of :: "exc \<Rightarrow> exc_class" where
  "class_of (Raised k) = k"
| "class_of (Wrapping k e) = k"

text \<open>\<open>isinstance(e, PickingSystemError)\<close>: the classes of exceptions.py.\<close>

definition is_picking_system_error :: "exc \<Rightarrow> bool" where
  "is_picking_system_error e =
     (class_of e \<in> {PickingSystemError, FileNotFoundError, InvalidFileFormatError,
        ValidationError, MasterDBError, ProcessingError, ReferenceDBError, OutputError})"

section \<open>config.py\<close>

datatype re_item = Lit nat | Digit

definition lit :: "string \<Rightarrow> re_item list" where
  "lit s = map Lit (ascii s)"

definition OPTION_START_COL :: nat where
  "OPTION_START_COL = 11"

definition COL_START_PART :: nat where "COL_START_PART = 1"
definition COL_FACTORY :: nat where "COL_FACTORY = 2"
definition COL_PART_NUMBER :: nat where "COL_PART_NUMBER = 4"
definition COL_PART_NAME :: nat where "COL_PART_NAME = 5"
definition COL_SPEC :: nat where "COL_SPEC = 6"
definition COL_QUANTITY :: nat where "COL_QUANTITY = 9"

definition CM_PART_PATTERNS :: "re_item list list" where
  "CM_PART_PATTERNS = [lit ''CM'' @ replicate 6 Digit, lit ''C-'' @ replicate 6 Digit]"

definition A_PARTS_PATTERNS :: "re_item list list" where
  "A_PARTS_PATTERNS = [lit ''A'' @ replicate 6 Digit, lit ''AP-'' @ replicate 6 Digit]"

definition EXCLUDE_PART_PATTERNS :: "re_item list list" where
  "EXCLUDE_PART_PATTERNS = [lit ''FRAME'', lit ''SET'', lit ''KIT'']"

text \<open>
  \<open>VALIDATION['required_headers']\<close>, in the order of the dictionary: column 0 is
  \<open>No\<close>, column 1 the start part number, column 2 the factory, column 4 the part number.
\<close>

definition required_headers :: "(nat \<times> pystr) list" where
  "required_headers =
     [(0, [78, 111]),
      (1, [36215, 28857, 37096, 21697, 30058, 21495]),
      (2, [24037, 22580]),
      (4, [37096, 21697, 30058, 21495])]"

section \<open>utils.py\<close>

text \<open>
  \<open>re.match(pattern, s, re.IGNORECASE)\<close> for the patterns of config.py: all start with
  \<open>^\<close> and are a sequence of literal characters and \<open>\d\<close>. With \<open>re.IGNORECASE\<close> a
  letter of the pattern matches its upper and lower case and the characters Python folds
  onto it: U+017F for S, U+212A for K, U+0130 and U+0131 for I.
\<close>

definition ci_match :: "nat \<Rightarrow> nat \<Rightarrow> bool" where
  "ci_match p c =
     (if 65 \<le> p \<and> p \<le> 90
      then c = p \<or> c = p + 32 \<or> (p = 83 \<and> c = 383) \<or> (p = 75 \<and> c = 8490) \<or>
           (p = 73 \<and> (c = 304 \<or> c = 305))
      else c = p)"

fun item_match :: "runtime \<Rightarrow> re_item \<Rightarrow> nat \<Rightarrow> bool" where
  "item_match rt (Lit p) c = ci_match p c"
| "item_match rt Digit c = re_digit rt c"

fun re_match :: "runtime \<Rightarrow> re_item list \<Rightarrow> pystr \<Rightarrow> bool" where
  "re_match rt [] s = True"
| "re_match rt (i # pat) [] = False"
| "re_match rt (i # pat) (c # s) = (item_match rt i c \<and> re_match rt pat s)"

definition is_valid_part_number :: "runtime \<Rightarrow> pystr \<Rightarrow> bool" where
  "is_valid_part_number rt part_number =
     (if part_number = [] then False
      else let part_number = strip part_number in
        if part_number = [] then False
        else if length part_number < 6 \<or> length part_number > 20 then False
        else if list_ex (\<lambda>pattern. re_match rt pattern part_number) EXCLUDE_PART_PATTERNS
          then False
        else True)"

datatype PartType = CM | A_PARTS | FRAME | OTHER

definition identify_part_type :: "runtime \<Rightarrow> pystr \<Rightarrow> PartType" where
  "identify_part_type rt part_number =
     (if part_number = [] then OTHER
      else let part_number = strip part_number in
        if list_ex (\<lambda>pattern. re_match rt pattern part_number) CM_PART_PATTERNS then CM
        else if list_ex (\<lambda>pattern. re_match rt pattern part_number) A_PARTS_PATTERNS
          then A_PARTS
        else if re_match rt (lit ''FRAME'') part_number then FRAME
        else OTHER)"

fun safe_str :: "cell \<Rightarrow> pystr" where
  "safe_str Missing = []"
| "safe_str (Text s) = strip s"
| "safe_str (Other s) = strip s"

fun safe_int :: "runtime \<Rightarrow> cell \<Rightarrow> exc + int" where
  "safe_int rt Missing = Inr 0"
| "safe_int rt v =
     (case int_float rt v of
        Converted n \<Rightarrow> Inr n
      | Rejected \<Rightarrow> Inr 0
      | Overflow \<Rightarrow> Inl (Raised OverflowError))"

text \<open>
  The loop of \<open>extract_options\<close> over the cells from \<open>option_start_col\<close> to the end of
  the row; \<open>options\<close> is the list built so far.
\<close>

fun extract_options_loop :: "cell list \<Rightarrow> pystr list \<Rightarrow> pystr list" where
  "extract_options_loop [] options = options"
| "extract_options_loop (c # cs) options =
     (let v = safe_str c in
      if v \<noteq> [] \<and> v \<notin> set [[], ascii ''-'', ascii ''nan'']
      then extract_options_loop cs (options @ [v])
      else extract_options_loop cs options)"

definition extract_options :: "cell list \<Rightarrow> nat \<Rightarrow> pystr list" where
  "extract_options row_data option_start_col =
     extract_options_loop (drop option_start_col row_data) []"

fun join :: "pystr \<Rightarrow> pystr list \<Rightarrow> pystr" where
  "join sep [] = []"
| "join sep [x] = x"
| "join sep (x # y # ys) = x @ sep @ join sep (y # ys)"

definition format_options :: "pystr list \<Rightarrow> pystr" where
  "format_options options = (if options = [] then [] else join (ascii '' / '') options)"

definition calculate_required_boxes :: "int \<Rightarrow> int \<Rightarrow> int" where
  "calculate_required_boxes quantity quantity_per_box =
     (if quantity_per_box \<le> 0 then 0
      else (quantity + quantity_per_box - 1) div quantity_per_box)"

section \<open>Tables\<close>

text \<open>
  A sheet read with \<open>header=None\<close> is the list of its rows, each the list of its cells.
  \<open>iloc\<close> is positional access; out of range it raises \<open>IndexError\<close>. \<open>ncols\<close> is
  \<open>len(df.columns)\<close>: all rows of a sheet have the width of the first.
\<close>

type_synonym matrix = "cell list list"

definition iloc :: "cell list \<Rightarrow> nat \<Rightarrow> exc + cell" where
  "iloc row i = (if i < length row then Inr (row ! i) else Inl (Raised IndexError))"

definition ncols :: "matrix \<Rightarrow> nat" where
  "ncols m = (case m of [] \<Rightarrow> 0 | row # rows \<Rightarrow> length row)"

text \<open>
  A master catalog is read with its header row; a row is given by the cells under the
  columns that \<open>CM_MASTER_DB['columns']\<close> and \<open>A_PARTS_MASTER_DB['columns']\<close> name. The
  catalogs are taken to have these columns.
\<close>

record cm_master_row =
  cm_key :: cell
  cm_box_code :: cell
  cm_box_name :: cell
  cm_storage_location :: cell

record a_master_row =
  am_key :: cell
  am_part_name :: cell
  am_storage_location :: cell
  am_rack :: cell
  am_quantity_per_box :: cell

text \<open>The dictionaries that \<open>_find_cm_master\<close> and \<open>_find_a_parts_master\<close> return.\<close>

record cm_master_info =
  mi_box_code :: pystr
  mi_box_name :: pystr
  mi_storage_location :: pystr

record a_master_info =
  ai_part_name :: pystr
  ai_storage_location :: pystr
  ai_rack :: pystr
  ai_quantity_per_box :: int

text \<open>The rows of the two reference tables, one field for each key of the dictionary.\<close>

record cm_reference_row =
  cr_no :: int
  cr_start_part_number :: pystr
  cr_factory :: pystr
  cr_part_number :: pystr
  cr_part_name :: pystr
  cr_spec :: pystr
  cr_box_code :: pystr
  cr_box_name :: pystr
  cr_storage_location :: pystr

record a_reference_row =
  ar_no :: int
  ar_start_part_number :: pystr
  ar_factory :: pystr
  ar_part_number :: pystr
  ar_part_name :: pystr
  ar_storage_location :: pystr
  ar_rack :: pystr
  ar_quantity_per_box :: int

section \<open>models.py\<close>

datatype ProcessLine = A_LINE | C_LINE

record CMPickingRow =
  cp_no :: int
  cp_start_part_number :: pystr
  cp_factory :: pystr
  cp_part_number :: pystr
  cp_part_name :: pystr
  cp_spec :: pystr
  cp_quantity :: int
  cp_box_code :: pystr
  cp_box_name :: pystr
  cp_storage_location :: pystr
  cp_options :: pystr

record APartsPickingRow =
  ap_no :: int
  ap_start_part_number :: pystr
  ap_factory :: pystr
  ap_part_number :: pystr
  ap_part_name :: pystr
  ap_quantity :: int
  ap_storage_location :: pystr
  ap_rack :: pystr
  ap_quantity_per_box :: int
  ap_required_boxes :: int
  ap_options :: pystr

record System720Row =
  s_slip_number :: pystr
  s_line_number :: int
  s_part_number :: pystr
  s_quantity :: int
  s_unit :: pystr
  s_delivery_date :: pystr
  s_remarks :: pystr

text \<open>The dictionary of \<open>_create_validation_row\<close>.\<close>

record validation_row =
  vr_no :: int
  vr_part_number :: pystr
  vr_required_quantity :: int
  vr_quantity_per_box :: int
  vr_required_boxes :: int
  vr_actual_quantity :: int
  vr_difference :: int
  vr_verdict :: pystr

text \<open>
  The messages of \<open>_validate_input_file\<close>, each given by the values its f-string
  formats: the column number, the expected and the actual label, the caught exception.
\<close>

datatype verror =
    FileDoesNotExist
  | NoDataRows
  | ColumnMissing nat
  | HeaderInvalid nat pystr pystr
  | FramePartNumberMissing
  | FileValidationError exc

datatype vwarning = FileNameMismatch pystr pystr

record ValidationResult =
  is_valid :: bool
  errors :: "verror list"
  warnings :: "vwarning list"

section \<open>processors/reference_db.py\<close>

text \<open>
  \<open>safe_read_excel\<close> raises \<open>FileNotFoundError\<close> for a file that does not exist and
  \<open>InvalidFileFormatError\<close> for one that pandas cannot read.
\<close>

datatype 'a excel_file = Absent | Unreadable | Sheet 'a

fun safe_read_excel :: "'a excel_file \<Rightarrow> exc + 'a" where
  "safe_read_excel Absent = Inl (Raised FileNotFoundError)"
| "safe_read_excel Unreadable = Inl (Raised InvalidFileFormatError)"
| "safe_read_excel (Sheet df) = Inr df"

definition load_master_dbs ::
  "cm_master_row list excel_file \<Rightarrow> a_master_row list excel_file \<Rightarrow>
   exc + (cm_master_row list \<times> a_master_row list)" where
  "load_master_dbs cm_file a_file =
     (case safe_read_excel cm_file of
        Inl e \<Rightarrow> Inl (Wrapping MasterDBError e)
      | Inr df_cm_master \<Rightarrow>
          (case safe_read_excel a_file of
             Inl e \<Rightarrow> Inl (Wrapping MasterDBError e)
           | Inr df_a_parts_master \<Rightarrow> Inr (df_cm_master, df_a_parts_master)))"

text \<open>
  The mask \<open>df[part_col] == part_number\<close> holds for the rows whose key is the \<open>str\<close>
  \<open>part_number\<close> itself; the first such row is taken.
\<close>

definition find_cm_master :: "cm_master_row list \<Rightarrow> pystr \<Rightarrow> cm_master_info option" where
  "find_cm_master df_cm_master part_number =
     (case filter (\<lambda>r. cm_key r = Text part_number) df_cm_master of
        [] \<Rightarrow> None
      | row # matched \<Rightarrow>
          Some \<lparr> mi_box_code = safe_str (cm_box_code row),
                 mi_box_name = safe_str (cm_box_name row),
                 mi_storage_location = safe_str (cm_storage_location row) \<rparr>)"

definition find_a_parts_master ::
  "runtime \<Rightarrow> a_master_row list \<Rightarrow> pystr \<Rightarrow> exc + a_master_info option" where
  "find_a_parts_master rt df_a_parts_master part_number =
     (case filter (\<lambda>r. am_key r = Text part_number) df_a_parts_master of
        [] \<Rightarrow> Inr None
      | row # matched \<Rightarrow>
          (case safe_int rt (am_quantity_per_box row) of
             Inl e \<Rightarrow> Inl e
           | Inr n \<Rightarrow>
               Inr (Some \<lparr> ai_part_name = safe_str (am_part_name row),
                            ai_storage_location = safe_str (am_storage_location row),
                            ai_rack = safe_str (am_rack row),
                            ai_quantity_per_box = n \<rparr>)))"

text \<open>
  The body of the loop of \<open>_create_cm_reference_db\<close> for one row of the matrix:
  \<open>Inr None\<close> is \<open>continue\<close>, \<open>Inr (Some r)\<close> the dictionary appended, \<open>Inl e\<close> an
  exception. \<open>n\<close> is \<open>len(cm_reference_data)\<close>. The fields of the master dictionary are
  strings already and pass through \<open>safe_str\<close> once more.
\<close>

definition cm_reference_step ::
  "runtime \<Rightarrow> cm_master_row list \<Rightarrow> cell list \<Rightarrow> nat \<Rightarrow> exc + cm_reference_row option" where
  "cm_reference_step rt df_cm_master row n =
     (case iloc row COL_PART_NUMBER of
        Inl e \<Rightarrow> Inl e
      | Inr c \<Rightarrow>
          (let part_number = safe_str c in
           if \<not> is_valid_part_number rt part_number then Inr None
           else if identify_part_type rt part_number \<noteq> CM then Inr None
           else
             (case find_cm_master df_cm_master part_number of
                None \<Rightarrow> Inr None
              | Some master_row \<Rightarrow>
                  (case iloc row COL_START_PART of Inl e \<Rightarrow> Inl e | Inr start_part \<Rightarrow>
                  (case iloc row COL_FACTORY of Inl e \<Rightarrow> Inl e | Inr factory \<Rightarrow>
                  (case iloc row COL_PART_NAME of Inl e \<Rightarrow> Inl e | Inr part_name \<Rightarrow>
                  (case iloc row COL_SPEC of Inl e \<Rightarrow> Inl e | Inr spec \<Rightarrow>
                     Inr (Some \<lparr> cr_no = int n + 1,
                                  cr_start_part_number = safe_str start_part,
                                  cr_factory = safe_str factory,
                                  cr_part_number = part_number,
                                  cr_part_name = safe_str part_name,
                                  cr_spec = safe_str spec,
                                  cr_box_code = safe_str (Text (mi_box_code master_row)),
                                  cr_box_name = safe_str (Text (mi_box_name master_row)),
                                  cr_storage_location =
                                    safe_str (Text (mi_storage_location master_row)) \<rparr>))))))))"

fun cm_reference_loop ::
  "runtime \<Rightarrow> cm_master_row list \<Rightarrow> cell list list \<Rightarrow> cm_reference_row list \<Rightarrow>
   exc + cm_reference_row list" where
  "cm_reference_loop rt df_cm_master [] cm_reference_data = Inr cm_reference_data"
| "cm_reference_loop rt df_cm_master (row # rows) cm_reference_data =
     (case cm_reference_step rt df_cm_master row (length cm_reference_data) of
        Inl e \<Rightarrow> Inl e
      | Inr None \<Rightarrow> cm_reference_loop rt df_cm_master rows cm_reference_data
      | Inr (Some r) \<Rightarrow> cm_reference_loop rt df_cm_master rows (cm_reference_data @ [r]))"

text \<open>\<open>for idx in range(1, len(self.df_matrix))\<close>: the rows after the header.\<close>

definition create_cm_reference_db ::
  "runtime \<Rightarrow> matrix \<Rightarrow> cm_master_row list \<Rightarrow> exc + cm_reference_row list" where
  "create_cm_reference_db rt df_matrix df_cm_master =
     cm_reference_loop rt df_cm_master (drop 1 df_matrix) []"

text \<open>
  The same for \<open>_create_a_parts_reference_db\<close>. The quantity per box of the master
  dictionary is an integer that \<open>safe_int\<close> made; \<open>safe_int\<close> returns such an integer
  unchanged (it is the integer part of a float), so the second conversion is not written.
  The part name comes from the matrix row.
\<close>

definition a_reference_step ::
  "runtime \<Rightarrow> a_master_row list \<Rightarrow> cell list \<Rightarrow> nat \<Rightarrow> exc + a_reference_row option" where
  "a_reference_step rt df_a_parts_master row n =
     (case iloc row COL_PART_NUMBER of
        Inl e \<Rightarrow> Inl e
      | Inr c \<Rightarrow>
          (let part_number = safe_str c in
           if \<not> is_valid_part_number rt part_number then Inr None
           else if identify_part_type rt part_number \<noteq> A_PARTS then Inr None
           else
             (case find_a_parts_master rt df_a_parts_master part_number of
                Inl e \<Rightarrow> Inl e
              | Inr None \<Rightarrow> Inr None
              | Inr (Some master_row) \<Rightarrow>
                  (case iloc row COL_START_PART of Inl e \<Rightarrow> Inl e | Inr start_part \<Rightarrow>
                  (case iloc row COL_FACTORY of Inl e \<Rightarrow> Inl e | Inr factory \<Rightarrow>
                  (case iloc row COL_PART_NAME of Inl e \<Rightarrow> Inl e | Inr part_name \<Rightarrow>
                     Inr (Some \<lparr> ar_no = int n + 1,
                                  ar_start_part_number = safe_str start_part,
                                  ar_factory = safe_str factory,
                                  ar_part_number = part_number,
                                  ar_part_name = safe_str part_name,
                                  ar_storage_location =
                                    safe_str (Text (ai_storage_location master_row)),
                                  ar_rack = safe_str (Text (ai_rack master_row)),
                                  ar_quantity_per_box = ai_quantity_per_box master_row \<rparr>)))))))"

fun a_reference_loop ::
  "runtime \<Rightarrow> a_master_row list \<Rightarrow> cell list list \<Rightarrow> a_reference_row list \<Rightarrow>
   exc + a_reference_row list" where
  "a_reference_loop rt df_a_parts_master [] a_reference_data = Inr a_reference_data"
| "a_reference_loop rt df_a_parts_master (row # rows) a_reference_data =
     (case a_reference_step rt df_a_parts_master row (length a_reference_data) of
        Inl e \<Rightarrow> Inl e
      | Inr None \<Rightarrow> a_reference_loop rt df_a_parts_master rows a_reference_data
      | Inr (Some r) \<Rightarrow> a_reference_loop rt df_a_parts_master rows (a_reference_data @ [r]))"

definition create_a_parts_reference_db ::
  "runtime \<Rightarrow> matrix \<Rightarrow> a_master_row list \<Rightarrow> exc + a_reference_row list" where
  "create_a_parts_reference_db rt df_matrix df_a_parts_master =
     a_reference_loop rt df_a_parts_master (drop 1 df_matrix) []"

text \<open>
  \<open>create_reference_dbs\<close>: every exception of its body, that of \<open>_load_master_dbs\<close>
  included, is caught and raised again as a \<open>ReferenceDBError\<close>.
\<close>

definition create_reference_dbs ::
  "runtime \<Rightarrow> matrix \<Rightarrow> cm_master_row list excel_file \<Rightarrow> a_master_row list excel_file \<Rightarrow>
   exc + (cm_reference_row list \<times> a_reference_row list)" where
  "create_reference_dbs rt df_matrix cm_file a_file =
     (case
        (case load_master_dbs cm_file a_file of
           Inl e \<Rightarrow> Inl e
         | Inr (df_cm_master, df_a_parts_master) \<Rightarrow>
             (case create_cm_reference_db rt df_matrix df_cm_master of
                Inl e \<Rightarrow> Inl e
              | Inr df_cm_reference \<Rightarrow>
                  (case create_a_parts_reference_db rt df_matrix df_a_parts_master of
                     Inl e \<Rightarrow> Inl e
                   | Inr df_a_reference \<Rightarrow> Inr (df_cm_reference, df_a_reference))))
      of
        Inl e \<Rightarrow> Inl (Wrapping ReferenceDBError e)
      | Inr dbs \<Rightarrow> Inr dbs)"

section \<open>processors/cm_picking.py and processors/a_parts_picking.py\<close>

text \<open>
  \<open>_find_matrix_row\<close>, the same in both processors: the first data row whose part-number
  cell, trimmed, is the part number.
\<close>

fun find_matrix_row_loop :: "cell list list \<Rightarrow> pystr \<Rightarrow> exc + cell list option" where
  "find_matrix_row_loop [] part_number = Inr None"
| "find_matrix_row_loop (row # rows) part_number =
     (case iloc row COL_PART_NUMBER of
        Inl e \<Rightarrow> Inl e
      | Inr c \<Rightarrow>
          if safe_str c = part_number then Inr (Some row)
          else find_matrix_row_loop rows part_number)"

definition find_matrix_row :: "matrix \<Rightarrow> pystr \<Rightarrow> exc + cell list option" where
  "find_matrix_row df_matrix part_number = find_matrix_row_loop (drop 1 df_matrix) part_number"

text \<open>
  The fields of a reference row are strings and integers that the reference stage made:
  \<open>safe_str\<close> trims the strings once more, and \<open>safe_int\<close> returns the integers
  unchanged.
\<close>

definition cm_create_picking_row ::
  "runtime \<Rightarrow> cm_reference_row \<Rightarrow> cell list \<Rightarrow> int \<Rightarrow> exc + CMPickingRow" where
  "cm_create_picking_row rt ref_row matrix_row row_number =
     (case iloc matrix_row COL_QUANTITY of
        Inl e \<Rightarrow> Inl e
      | Inr q \<Rightarrow>
          (case safe_int rt q of
             Inl e \<Rightarrow> Inl e
           | Inr quantity \<Rightarrow>
               (let options = extract_options matrix_row OPTION_START_COL;
                    options_str = format_options options
                in Inr \<lparr> cp_no = row_number,
                         cp_start_part_number = safe_str (Text (cr_start_part_number ref_row)),
                         cp_factory = safe_str (Text (cr_factory ref_row)),
                         cp_part_number = safe_str (Text (cr_part_number ref_row)),
                         cp_part_name = safe_str (Text (cr_part_name ref_row)),
                         cp_spec = safe_str (Text (cr_spec ref_row)),
                         cp_quantity = quantity,
                         cp_box_code = safe_str (Text (cr_box_code ref_row)),
                         cp_box_name = safe_str (Text (cr_box_name ref_row)),
                         cp_storage_location = safe_str (Text (cr_storage_location ref_row)),
                         cp_options = options_str \<rparr>)))"

fun cm_picking_loop ::
  "runtime \<Rightarrow> matrix \<Rightarrow> cm_reference_row list \<Rightarrow> CMPickingRow list \<Rightarrow>
   exc + CMPickingRow list" where
  "cm_picking_loop rt df_matrix [] cm_picking_rows = Inr cm_picking_rows"
| "cm_picking_loop rt df_matrix (ref_row # refs) cm_picking_rows =
     (case find_matrix_row df_matrix (safe_str (Text (cr_part_number ref_row))) of
        Inl e \<Rightarrow> Inl e
      | Inr None \<Rightarrow> cm_picking_loop rt df_matrix refs cm_picking_rows
      | Inr (Some matrix_row) \<Rightarrow>
          (case cm_create_picking_row rt ref_row matrix_row
                  (int (length cm_picking_rows) + 1) of
             Inl e \<Rightarrow> Inl e
           | Inr picking_row \<Rightarrow>
               cm_picking_loop rt df_matrix refs (cm_picking_rows @ [picking_row])))"

definition create_cm_picking ::
  "runtime \<Rightarrow> matrix \<Rightarrow> cm_reference_row list \<Rightarrow> exc + CMPickingRow list" where
  "create_cm_picking rt df_matrix df_cm_reference =
     (case cm_picking_loop rt df_matrix df_cm_reference [] of
        Inl e \<Rightarrow> Inl (Wrapping ProcessingError e)
      | Inr rows \<Rightarrow> Inr rows)"

definition a_create_picking_row ::
  "runtime \<Rightarrow> a_reference_row \<Rightarrow> cell list \<Rightarrow> int \<Rightarrow> exc + APartsPickingRow" where
  "a_create_picking_row rt ref_row matrix_row row_number =
     (let quantity_per_box = ar_quantity_per_box ref_row in
      case iloc matrix_row COL_QUANTITY of
        Inl e \<Rightarrow> Inl e
      | Inr q \<Rightarrow>
          (case safe_int rt q of
             Inl e \<Rightarrow> Inl e
           | Inr quantity \<Rightarrow>
               (let required_boxes = calculate_required_boxes quantity quantity_per_box;
                    options = extract_options matrix_row OPTION_START_COL;
                    options_str = format_options options
                in Inr \<lparr> ap_no = row_number,
                         ap_start_part_number = safe_str (Text (ar_start_part_number ref_row)),
                         ap_factory = safe_str (Text (ar_factory ref_row)),
                         ap_part_number = safe_str (Text (ar_part_number ref_row)),
                         ap_part_name = safe_str (Text (ar_part_name ref_row)),
                         ap_quantity = quantity,
                         ap_storage_location = safe_str (Text (ar_storage_location ref_row)),
                         ap_rack = safe_str (Text (ar_rack ref_row)),
                         ap_quantity_per_box = quantity_per_box,
                         ap_required_boxes = required_boxes,
                         ap_options = options_str \<rparr>)))"

definition create_validation_row :: "APartsPickingRow \<Rightarrow> cell list \<Rightarrow> validation_row" where
  "create_validation_row picking_row matrix_row =
     (let calculated_quantity = ap_required_boxes picking_row * ap_quantity_per_box picking_row;
          original_quantity = ap_quantity picking_row;
          difference = calculated_quantity - original_quantity
      in \<lparr> vr_no = ap_no picking_row,
           vr_part_number = ap_part_number picking_row,
           vr_required_quantity = original_quantity,
           vr_quantity_per_box = ap_quantity_per_box picking_row,
           vr_required_boxes = ap_required_boxes picking_row,
           vr_actual_quantity = calculated_quantity,
           vr_difference = difference,
           vr_verdict = (if difference \<ge> 0 then ascii ''OK'' else ascii ''NG'') \<rparr>)"

fun a_picking_loop ::
  "runtime \<Rightarrow> matrix \<Rightarrow> a_reference_row list \<Rightarrow>
   APartsPickingRow list \<times> validation_row list \<Rightarrow>
   exc + (APartsPickingRow list \<times> validation_row list)" where
  "a_picking_loop rt df_matrix [] (a_picking_rows, validation_rows) =
     Inr (a_picking_rows, validation_rows)"
| "a_picking_loop rt df_matrix (ref_row # refs) (a_picking_rows, validation_rows) =
     (case find_matrix_row df_matrix (safe_str (Text (ar_part_number ref_row))) of
        Inl e \<Rightarrow> Inl e
      | Inr None \<Rightarrow> a_picking_loop rt df_matrix refs (a_picking_rows, validation_rows)
      | Inr (Some matrix_row) \<Rightarrow>
          (case a_create_picking_row rt ref_row matrix_row
                  (int (length a_picking_rows) + 1) of
             Inl e \<Rightarrow> Inl e
           | Inr picking_row \<Rightarrow>
               a_picking_loop rt df_matrix refs
                 (a_picking_rows @ [picking_row],
                  validation_rows @ [create_validation_row picking_row matrix_row])))"

definition create_a_parts_picking ::
  "runtime \<Rightarrow> matrix \<Rightarrow> a_reference_row list \<Rightarrow>
   exc + (APartsPickingRow list \<times> validation_row list)" where
  "create_a_parts_picking rt df_matrix df_a_reference =
     (case a_picking_loop rt df_matrix df_a_reference ([], []) of
        Inl e \<Rightarrow> Inl (Wrapping ProcessingError e)
      | Inr tables \<Rightarrow> Inr tables)"

section \<open>processors/system_720.py\<close>

text \<open>
  The rows that \<open>generate\<close> collects before it renders them into the workbook. The slip
  number and the delivery date come from the clock when the generator is made; they are
  arguments here. The two loops carry \<open>system_rows\<close> and \<open>line_number\<close>. The unit is the
  one-character label U+500B.
\<close>

fun generate_cm_loop ::
  "pystr \<Rightarrow> pystr \<Rightarrow> CMPickingRow list \<Rightarrow> System720Row list \<times> int \<Rightarrow>
   System720Row list \<times> int" where
  "generate_cm_loop slip delivery [] (system_rows, n) = (system_rows, n)"
| "generate_cm_loop slip delivery (row # rows) (system_rows, n) =
     generate_cm_loop slip delivery rows
       (system_rows @
          [\<lparr> s_slip_number = slip, s_line_number = n,
             s_part_number = safe_str (Text (cp_part_number row)),
             s_quantity = cp_quantity row, s_unit = [20491],
             s_delivery_date = delivery,
             s_remarks = safe_str (Text (cp_options row)) \<rparr>],
        n + 1)"

fun generate_a_loop ::
  "pystr \<Rightarrow> pystr \<Rightarrow> APartsPickingRow list \<Rightarrow> System720Row list \<times> int \<Rightarrow>
   System720Row list \<times> int" where
  "generate_a_loop slip delivery [] (system_rows, n) = (system_rows, n)"
| "generate_a_loop slip delivery (row # rows) (system_rows, n) =
     generate_a_loop slip delivery rows
       (system_rows @
          [\<lparr> s_slip_number = slip, s_line_number = n,
             s_part_number = safe_str (Text (ap_part_number row)),
             s_quantity = ap_quantity row, s_unit = [20491],
             s_delivery_date = delivery,
             s_remarks = safe_str (Text (ap_options row)) \<rparr>],
        n + 1)"

definition generate ::
  "pystr \<Rightarrow> pystr \<Rightarrow> CMPickingRow list \<Rightarrow> APartsPickingRow list option \<Rightarrow>
   System720Row list" where
  "generate slip delivery df_cm_picking df_a_parts_picking =
     (let st = generate_cm_loop slip delivery df_cm_picking ([], 1);
          st = (case df_a_parts_picking of
                  None \<Rightarrow> st
                | Some df \<Rightarrow> if df \<noteq> [] then generate_a_loop slip delivery df st else st)
      in fst st)"

section \<open>main.py\<close>

text \<open>
  What a run reads: the input file (the stem of its name and its first sheet), the two
  catalog files, the line to process, and the slip number and delivery date of the day.
\<close>

record environment =
  input_stem :: pystr
  input_file :: "matrix excel_file"
  cm_master_file :: "cm_master_row list excel_file"
  a_master_file :: "a_master_row list excel_file"
  process_line :: ProcessLine
  today_slip_number :: pystr
  today_delivery_date :: pystr

text \<open>
  The loop over \<open>expected_headers\<close>. A column index below \<open>len(df.columns)\<close> is inside
  row 0, so reading the header cell never raises.
\<close>

fun header_loop :: "matrix \<Rightarrow> (nat \<times> pystr) list \<Rightarrow> verror list \<Rightarrow> verror list" where
  "header_loop df [] errs = errs"
| "header_loop df ((col_idx, expected_value) # rest) errs =
     (if col_idx \<ge> ncols df then header_loop df rest (errs @ [ColumnMissing (col_idx + 1)])
      else
        (let actual_value = safe_str (df ! 0 ! col_idx) in
         if actual_value \<noteq> expected_value
         then header_loop df rest
                (errs @ [HeaderInvalid (col_idx + 1) expected_value actual_value])
         else header_loop df rest errs))"

text \<open>
  The result of \<open>_validate_input_file\<close> with the two attributes it sets, the matrix and
  the frame part number.
\<close>

record validation_outcome =
  result :: ValidationResult
  df_matrix_of :: "matrix option"
  frame_part_number_of :: "pystr option"

definition invalid :: "verror list \<Rightarrow> matrix option \<Rightarrow> pystr option \<Rightarrow> validation_outcome" where
  "invalid errs df frame =
     \<lparr> result = \<lparr> is_valid = False, errors = errs, warnings = [] \<rparr>,
       df_matrix_of = df, frame_part_number_of = frame \<rparr>"

definition validate_input_file :: "environment \<Rightarrow> validation_outcome" where
  "validate_input_file env =
     (case input_file env of
        Absent \<Rightarrow> invalid [FileDoesNotExist] None None
      | Unreadable \<Rightarrow> invalid [FileValidationError (Raised InvalidFileFormatError)] None None
      | Sheet df \<Rightarrow>
          if length df < 2 then invalid [NoDataRows] (Some df) None
          else
            (let errs = header_loop df required_headers [] in
             if errs \<noteq> [] then invalid errs (Some df) None
             else
               (case iloc (df ! 1) COL_PART_NUMBER of
                  Inl e \<Rightarrow> invalid [FileValidationError e] (Some df) None
                | Inr c \<Rightarrow>
                    (let frame = safe_str c in
                     if frame = [] then invalid [FramePartNumberMissing] (Some df) (Some frame)
                     else
                       (let file_prefix =
                              (if length (input_stem env) \<ge> 10 then take 10 (input_stem env)
                               else input_stem env);
                            frame_prefix = (if length frame \<ge> 10 then take 10 frame else frame)
                        in \<lparr> result =
                               \<lparr> is_valid = True, errors = [],
                                 warnings =
                                   (if file_prefix \<noteq> frame_prefix
                                    then [FileNameMismatch file_prefix frame_prefix] else []) \<rparr>,
                             df_matrix_of = Some df,
                             frame_part_number_of = Some frame \<rparr>)))))"

text \<open>
  The tables of a finished run, as \<open>_save_results\<close> receives them, and the three ways
  \<open>run\<close> ends: the validation failed, a stage raised an exception of the system's family,
  or the tables were made. Writing the workbook is not modelled.
\<close>

record tables =
  t_cm_reference :: "cm_reference_row list"
  t_a_reference :: "a_reference_row list"
  t_cm_picking :: "CMPickingRow list"
  t_a_picking :: "APartsPickingRow list option"
  t_a_validation :: "validation_row list option"
  t_system_720 :: "System720Row list"

datatype outcome =
    ValidationFailed "verror list" "vwarning list"
  | SystemFailed exc
  | Completed tables

definition run :: "runtime \<Rightarrow> environment \<Rightarrow> outcome" where
  "run rt env =
     (let validation = validate_input_file env in
      if \<not> is_valid (result validation)
      then ValidationFailed (errors (result validation)) (warnings (result validation))
      else
        (case df_matrix_of validation of
           None \<Rightarrow> ValidationFailed (errors (result validation)) (warnings (result validation))
         | Some df_matrix \<Rightarrow>
        (case create_reference_dbs rt df_matrix (cm_master_file env) (a_master_file env) of
           Inl e \<Rightarrow> SystemFailed e
         | Inr (df_cm_reference, df_a_reference) \<Rightarrow>
        (case create_cm_picking rt df_matrix df_cm_reference of
           Inl e \<Rightarrow> SystemFailed e
         | Inr df_cm_picking \<Rightarrow>
        (case (if process_line env = A_LINE
               then (case create_a_parts_picking rt df_matrix df_a_reference of
                       Inl e \<Rightarrow> Inl e
                     | Inr (p, v) \<Rightarrow> Inr (Some p, Some v))
               else Inr (None, None)) of
           Inl e \<Rightarrow> SystemFailed e
         | Inr (df_a_picking, df_a_validation) \<Rightarrow>
             Completed
               \<lparr> t_cm_reference = df_cm_reference,
                 t_a_reference = df_a_reference,
                 t_cm_picking = df_cm_picking,
                 t_a_picking = df_a_picking,
                 t_a_validation = df_a_validation,
                 t_system_720 =
                   generate (today_slip_number env) (today_delivery_date env)
                     df_cm_picking df_a_picking \<rparr>)))))"

section \<open>Properties\<close>

text \<open>
  The match of a literal pattern, as a relation between the pattern's letters and the
  first characters of the string.
\<close>

definition ci_prefix :: "string \<Rightarrow> pystr \<Rightarrow> bool" where
  "ci_prefix w s = (length w \<le> length s \<and> list_all2 ci_match (ascii w) (take (length w) s))"

text \<open>
  The words of the specification, written without the functions of the program.

  \<^item> \<open>white_space\<close> is the set of the characters that trimming removes: the code points
    for which Python's \<open>str.isspace\<close> holds.
  \<^item> \<open>trimmed s t\<close>: \<open>t\<close> is \<open>s\<close> without the white space at its two ends, that is, \<open>s\<close>
    is \<open>t\<close> between two runs of white space, and \<open>t\<close> neither starts nor ends with
    white space.
  \<^item> \<open>cell_string c t\<close>: \<open>t\<close> is the trimmed string of the cell \<open>c\<close>; a missing cell
    has the empty string.
  \<^item> \<open>excluded_prefix t\<close>: \<open>t\<close> starts with FRAME, SET or KIT in any case. Each letter is
    given by the characters that stand for it: its upper and lower case and, for S, K
    and I, the characters U+017F (long s), U+212A (Kelvin sign), U+0130 and U+0131
    (dotted capital and dotless small i), which Python's case-insensitive match takes
    for them.
\<close>

definition white_space :: "nat set" where
  "white_space =
     {9, 10, 11, 12, 13, 28, 29, 30, 31, 32, 133, 160, 5760,
      8192, 8193, 8194, 8195, 8196, 8197, 8198, 8199, 8200, 8201, 8202,
      8232, 8233, 8239, 8287, 12288}"

definition trimmed :: "pystr \<Rightarrow> pystr \<Rightarrow> bool" where
  "trimmed s t =
     (\<exists>l r. s = l @ t @ r \<and> set l \<subseteq> white_space \<and> set r \<subseteq> white_space \<and>
        \<not> (\<exists>c u. t = c # u \<and> c \<in> white_space) \<and>
        \<not> (\<exists>c u. t = u @ [c] \<and> c \<in> white_space))"

fun cell_string :: "cell \<Rightarrow> pystr \<Rightarrow> bool" where
  "cell_string Missing t = (t = [])"
| "cell_string (Text s) t = trimmed s t"
| "cell_string (Other s) t = trimmed s t"

definition excluded_prefix :: "pystr \<Rightarrow> bool" where
  "excluded_prefix t =
     (\<exists>u v. t = u @ v \<and>
        (list_all2 (\<in>) u [{70, 102}, {82, 114}, {65, 97}, {77, 109}, {69, 101}] \<or>
         list_all2 (\<in>) u [{83, 115, 383}, {69, 101}, {84, 116}] \<or>
         list_all2 (\<in>) u [{75, 107, 8490}, {73, 105, 304, 305}, {84, 116}]))"

text \<open>
  A runtime for concrete inputs: the digits are 0 to 9, and a cell whose text is a whole
  decimal number converts to that number.
\<close>

definition ascii_digit :: "nat \<Rightarrow> bool" where
  "ascii_digit c = (48 \<le> c \<and> c \<le> 57)"

definition decimal_value :: "pystr \<Rightarrow> conversion" where
  "decimal_value s =
     (if s \<noteq> [] \<and> list_all ascii_digit s
      then Converted (foldl (\<lambda>a d. 10 * a + (int d - 48)) 0 s)
      else Rejected)"

definition ascii_runtime :: runtime where
  "ascii_runtime =
     \<lparr> re_digit = ascii_digit,
       int_float = (\<lambda>v. case v of Missing \<Rightarrow> Rejected
                             | Text s \<Rightarrow> decimal_value (strip s)
                             | Other s \<Rightarrow> decimal_value (strip s)) \<rparr>"

text \<open>
  A small run for concrete evaluation: a header, the frame row, two CM parts of the catalog,
  a part number of five characters, a CM part that the catalog does not have and an A part
  with 25 pieces in boxes of 10.
\<close>

definition sample_row :: "string \<Rightarrow> string \<Rightarrow> string \<Rightarrow> cell list \<Rightarrow> cell list" where
  "sample_row part_no name qty opts =
     [Missing, Text (ascii ''S-1''), Text (ascii ''F1''), Missing, Text (ascii part_no),
      Text (ascii name), Text (ascii ''std''), Missing, Missing, Other (ascii qty), Missing]
     @ opts"

definition sample_matrix :: matrix where
  "sample_matrix =
     [[Text [78, 111], Text [36215, 28857, 37096, 21697, 30058, 21495], Text [24037, 22580],
       Missing, Text [37096, 21697, 30058, 21495], Missing, Missing, Missing, Missing,
       Missing, Missing, Missing, Missing],
      sample_row ''FRAME00001'' ''frame'' ''1'' [Missing, Missing],
      sample_row ''CM123456'' ''case'' ''2'' [Text (ascii ''red''), Text (ascii ''-'')],
      sample_row ''A1234'' ''short'' ''4'' [Missing, Missing],
      sample_row ''CM999999'' ''unknown'' ''5'' [Missing, Missing],
      sample_row '' A123456 '' ''bolt'' ''25'' [Missing, Text (ascii ''wide'')],
      sample_row ''C-000001'' ''cover'' ''3'' [Missing, Missing]]"

definition sample_cm_master :: "cm_master_row list" where
  "sample_cm_master =
     [\<lparr> cm_key = Text (ascii ''CM123456''), cm_box_code = Text (ascii ''B01''),
        cm_box_name = Text (ascii ''box one''), cm_storage_location = Text (ascii ''L1'') \<rparr>,
      \<lparr> cm_key = Text (ascii ''C-000001''), cm_box_code = Text (ascii ''B02''),
        cm_box_name = Text (ascii ''box two''), cm_storage_location = Text (ascii ''L2'') \<rparr>]"

definition sample_a_master :: "a_master_row list" where
  "sample_a_master =
     [\<lparr> am_key = Text (ascii ''A123456''), am_part_name = Text (ascii ''bolt M6''),
        am_storage_location = Text (ascii ''L3''), am_rack = Text (ascii ''R7''),
        am_quantity_per_box = Other (ascii ''10'') \<rparr>]"

definition sample_environment :: environment where
  "sample_environment =
     \<lparr> input_stem = ascii ''FRAME00001_matrix'',
       input_file = Sheet sample_matrix,
       cm_master_file = Sheet sample_cm_master,
       a_master_file = Sheet sample_a_master,
       process_line = A_LINE,
       today_slip_number = ascii ''20240101-001'',
       today_delivery_date = ascii ''2024-01-08'' \<rparr>"

text \<open>
  The rows that a reference pass emits, in the words of the specification: the part
  number is valid, it is of the class of the pass, and the catalog of the pass has it.
\<close>

definition part_number_cell :: "cell list \<Rightarrow> pystr" where
  "part_number_cell row = safe_str (row ! COL_PART_NUMBER)"

definition cm_emitted :: "runtime \<Rightarrow> cm_master_row list \<Rightarrow> pystr \<Rightarrow> bool" where
  "cm_emitted rt df_cm_master pn =
     (is_valid_part_number rt pn \<and> identify_part_type rt pn = CM \<and>
      find_cm_master df_cm_master pn \<noteq> None)"

definition a_emitted :: "runtime \<Rightarrow> a_master_row list \<Rightarrow> pystr \<Rightarrow> bool" where
  "a_emitted rt df_a_parts_master pn =
     (is_valid_part_number rt pn \<and> identify_part_type rt pn = A_PARTS \<and>
      (case find_a_parts_master rt df_a_parts_master pn of
         Inr (Some info) \<Rightarrow> True | _ \<Rightarrow> False))"

text \<open>
  The A-parts picking table handed to the row assembler: no table in the mode without A
  parts.
\<close>

definition a_rows_of :: "APartsPickingRow list option \<Rightarrow> APartsPickingRow list" where
  "a_rows_of df_a_parts_picking = (case df_a_parts_picking of None \<Rightarrow> [] | Some df \<Rightarrow> df)"

text \<open>
  Two reference rows for the sample matrix: the A part in boxes of 10, and a row whose
  quantity per box is 0.
\<close>

definition sample_a_reference :: "a_reference_row list" where
  "sample_a_reference =
     [\<lparr> ar_no = 1, ar_start_part_number = ascii ''S-1'', ar_factory = ascii ''F1'',
        ar_part_number = ascii ''A123456'', ar_part_name = ascii ''bolt'',
        ar_storage_location = ascii ''L3'', ar_rack = ascii ''R7'',
        ar_quantity_per_box = 10 \<rparr>,
      \<lparr> ar_no = 2, ar_start_part_number = ascii ''S-1'', ar_factory = ascii ''F1'',
        ar_part_number = ascii ''C-000001'', ar_part_name = ascii ''cover'',
        ar_storage_location = ascii ''L2'', ar_rack = ascii ''R1'',
        ar_quantity_per_box = 0 \<rparr>]"

text \<open>
  The header errors in the words of the specification: for each required header, in
  order, one error when the column does not exist and one when the trimmed cell of row 0
  differs from the expected label.
\<close>

definition header_problem :: "matrix \<Rightarrow> nat \<times> pystr \<Rightarrow> bool" where
  "header_problem df h = (fst h \<ge> ncols df \<or> safe_str (df ! 0 ! fst h) \<noteq> snd h)"

definition header_check :: "matrix \<Rightarrow> nat \<times> pystr \<Rightarrow> verror list" where
  "header_check df h =
     (if fst h \<ge> ncols df then [ColumnMissing (fst h + 1)]
      else if safe_str (df ! 0 ! fst h) \<noteq> snd h
        then [HeaderInvalid (fst h + 1) (snd h) (safe_str (df ! 0 ! fst h))]
      else [])"

definition header_errors :: "matrix \<Rightarrow> verror list" where
  "header_errors df = concat (map (header_check df) required_headers)"

text \<open>A catalog file that \<open>safe_read_excel\<close> can read.\<close>

definition readable :: "'a excel_file \<Rightarrow> bool" where
  "readable f = (case f of Sheet df \<Rightarrow> True | _ \<Rightarrow> False)"

text \<open>An A-parts catalog without the values of its part-name column.\<close>

definition without_part_names :: "a_master_row list \<Rightarrow> a_master_row list" where
  "without_part_names df = map (\<lambda>r. r\<lparr> am_part_name := Missing \<rparr>) df"

text \<open>
  More sample inputs: a header row of seven wrong labels, a sheet of one row, a sheet
  whose frame part number is missing, a run without the CM catalog file, and the A-parts
  catalog with another part name.
\<close>

definition sample_header :: "cell list" where
  "sample_header =
     [Text [78, 111], Text [36215, 28857, 37096, 21697, 30058, 21495], Text [24037, 22580],
      Missing, Text [37096, 21697, 30058, 21495], Missing, Missing, Missing, Missing,
      Missing, Missing, Missing, Missing]"

definition wrong_header_matrix :: matrix where
  "wrong_header_matrix =
     [replicate 7 (Text (ascii ''x'')),
      sample_row ''FRAME00001'' ''frame'' ''1'' [Missing, Missing]]"

definition wrong_header_environment :: environment where
  "wrong_header_environment = sample_environment \<lparr> input_file := Sheet wrong_header_matrix \<rparr>"

definition short_environment :: environment where
  "short_environment = sample_environment \<lparr> input_file := Sheet [sample_header] \<rparr>"

definition missing_frame_matrix :: matrix where
  "missing_frame_matrix =
     [sample_header,
      [Missing, Text (ascii ''S-1''), Text (ascii ''F1''), Missing, Missing,
       Text (ascii ''frame''), Missing, Missing, Missing, Other (ascii ''1''),
       Missing, Missing, Missing]]"

definition missing_frame_environment :: environment where
  "missing_frame_environment =
     sample_environment \<lparr> input_file := Sheet missing_frame_matrix \<rparr>"

definition missing_catalog_environment :: environment where
  "missing_catalog_environment = sample_environment \<lparr> cm_master_file := Absent \<rparr>"

definition renamed_a_master :: "a_master_row list" where
  "renamed_a_master =
     [\<lparr> am_key = Text (ascii ''A123456''), am_part_name = Text (ascii ''nut M8''),
        am_storage_location = Text (ascii ''L3''), am_rack = Text (ascii ''R7''),
        am_quantity_per_box = Other (ascii ''10'') \<rparr>]"

lemma re_match_lit:
  "re_match rt (map Lit p) s = (length p \<le> length s \<and> list_all2 ci_match p (take (length p) s))"
proof (induction p arbitrary: s)
  case Nil
  then show ?case by simp
next
  case (Cons a p)
  then show ?case by (cases s) auto
qed

lemma re_match_ci_prefix: "re_match rt (lit w) s = ci_prefix w s"
  using re_match_lit [of rt "ascii w" s] by (simp add: lit_def ci_prefix_def ascii_def)

lemma extract_options_loop_filter:
  "extract_options_loop cs acc =
     acc @ filter (\<lambda>v. v \<noteq> [] \<and> v \<noteq> ascii ''-'' \<and> v \<noteq> ascii ''nan'') (map safe_str cs)"
  by (induction cs arbitrary: acc) (auto simp: Let_def)

lemma ceiling_division:
  fixes q p :: int
  assumes pos: "0 < p"
  shows "(q + p - 1) div p = \<lceil>real_of_int q / real_of_int p\<rceil>"
proof -
  define n where "n = (q + p - 1) div p"
  define r where "r = (q + p - 1) mod p"
  have eq: "q + p - 1 = p * n + r" by (simp add: n_def r_def)
  have r0: "0 \<le> r" and rp: "r < p" using pos by (simp_all add: r_def)
  have up: "q \<le> n * p"
  proof -
    have "q = p * n + r - p + 1" using eq by simp
    also have "\<dots> \<le> p * n" using rp by simp
    finally show ?thesis by (simp add: mult.commute)
  qed
  have lo: "(n - 1) * p < q"
  proof -
    have "(n - 1) * p = p * n - p" by (simp add: algebra_simps)
    also have "\<dots> = q - 1 - r" using eq by simp
    also have "\<dots> < q" using r0 by simp
    finally show ?thesis .
  qed
  have "real_of_int q / real_of_int p \<le> real_of_int n"
  proof -
    have "real_of_int q \<le> real_of_int (n * p)" using up by (simp only: of_int_le_iff)
    then show ?thesis using pos by (simp add: divide_le_eq)
  qed
  moreover have "real_of_int n - 1 < real_of_int q / real_of_int p"
  proof -
    have "real_of_int ((n - 1) * p) < real_of_int q" using lo by (simp only: of_int_less_iff)
    then show ?thesis using pos by (simp add: less_divide_eq)
  qed
  ultimately have "\<lceil>real_of_int q / real_of_int p\<rceil> = n"
    by (intro ceiling_unique) simp_all
  then show ?thesis by (simp add: n_def)
qed

text \<open>
  C7. For all integers, the required boxes are 0 when the quantity per box is not
  positive, and the ceiling of quantity divided by quantity per box otherwise.
\<close>

theorem calculate_required_boxes_ceiling:
  "calculate_required_boxes quantity quantity_per_box =
     (if quantity_per_box \<le> 0 then 0
      else \<lceil>real_of_int quantity / real_of_int quantity_per_box\<rceil>)"
  by (simp add: calculate_required_boxes_def ceiling_division)

lemma strip_head: "strip s = [] \<or> \<not> is_space (hd (strip s))"
  by (metis dropWhile_eq_self_iff hd_dropWhile last_appendR last_rev
    rev_is_Nil_conv rev_swap strip_def takeWhile_dropWhile_id)

lemma strip_strip: "strip (strip s) = strip s"
proof -
  have 1: "dropWhile is_space (strip s) = strip s"
    using strip_head [of s] by (cases "strip s") auto
  have 2: "dropWhile is_space (rev (strip s)) = rev (strip s)"
    by (simp add: strip_def)
  show ?thesis
    unfolding strip_def [of "strip s"] by (simp add: 1 2)
qed

lemma strip_Nil: "strip [] = []"
  by (simp add: strip_def)

lemma safe_str_strip: "strip (safe_str c) = safe_str c"
  by (cases c) (simp_all add: strip_strip strip_Nil)

lemma is_valid_part_number_iff:
  "is_valid_part_number rt s =
     (strip s \<noteq> [] \<and> 6 \<le> length (strip s) \<and> length (strip s) \<le> 20 \<and>
      \<not> ci_prefix ''FRAME'' (strip s) \<and> \<not> ci_prefix ''SET'' (strip s) \<and>
      \<not> ci_prefix ''KIT'' (strip s))"
proof (cases "s = []")
  case True
  then show ?thesis by (simp add: is_valid_part_number_def strip_def)
next
  case False
  then show ?thesis
    by (auto simp: is_valid_part_number_def Let_def EXCLUDE_PART_PATTERNS_def re_match_ci_prefix)
qed

lemma cm_reference_step_no:
  "cm_reference_step rt master row n = Inr (Some r) \<Longrightarrow> cr_no r = int n + 1"
  by (auto simp: cm_reference_step_def Let_def split: sum.splits option.splits if_splits)

lemma a_reference_step_no:
  "a_reference_step rt master row n = Inr (Some r) \<Longrightarrow> ar_no r = int n + 1"
  by (auto simp: a_reference_step_def Let_def split: sum.splits option.splits if_splits)

lemma cm_reference_loop_no:
  "cm_reference_loop rt master rows acc = Inr t \<Longrightarrow>
   map cr_no acc = [1..int (length acc)] \<Longrightarrow> map cr_no t = [1..int (length t)]"
proof (induction rows arbitrary: acc)
  case Nil
  then show ?case by simp
next
  case (Cons row rows)
  show ?case
  proof (cases "cm_reference_step rt master row (length acc)")
    case (Inl e)
    with Cons.prems show ?thesis by simp
  next
    case (Inr step)
    show ?thesis
    proof (cases step)
      case None
      with Inr Cons show ?thesis by simp
    next
      case (Some r)
      have len: "int (length (acc @ [r])) = int (length acc) + 1" by simp
      have "map cr_no (acc @ [r]) = [1..int (length acc)] @ [int (length acc) + 1]"
        using Cons.prems(2) cm_reference_step_no [of rt master row "length acc" r] Inr Some by simp
      also have "\<dots> = [1..int (length acc) + 1]" by (simp add: upto_rec2)
      finally have "map cr_no (acc @ [r]) = [1..int (length (acc @ [r]))]"
        by (simp only: len)
      with Cons.IH [of "acc @ [r]"] Cons.prems(1) Inr Some show ?thesis by simp
    qed
  qed
qed

lemma a_reference_loop_no:
  "a_reference_loop rt master rows acc = Inr t \<Longrightarrow>
   map ar_no acc = [1..int (length acc)] \<Longrightarrow> map ar_no t = [1..int (length t)]"
proof (induction rows arbitrary: acc)
  case Nil
  then show ?case by simp
next
  case (Cons row rows)
  show ?case
  proof (cases "a_reference_step rt master row (length acc)")
    case (Inl e)
    with Cons.prems show ?thesis by simp
  next
    case (Inr step)
    show ?thesis
    proof (cases step)
      case None
      with Inr Cons show ?thesis by simp
    next
      case (Some r)
      have len: "int (length (acc @ [r])) = int (length acc) + 1" by simp
      have "map ar_no (acc @ [r]) = [1..int (length acc)] @ [int (length acc) + 1]"
        using Cons.prems(2) a_reference_step_no [of rt master row "length acc" r] Inr Some by simp
      also have "\<dots> = [1..int (length acc) + 1]" by (simp add: upto_rec2)
      finally have "map ar_no (acc @ [r]) = [1..int (length (acc @ [r]))]"
        by (simp only: len)
      with Cons.IH [of "acc @ [r]"] Cons.prems(1) Inr Some show ?thesis by simp
    qed
  qed
qed

lemma replicate_6: "replicate 6 x = [x, x, x, x, x, x]"
  by (simp add: eval_nat_numeral)

lemma ascii_runtime_simps:
  "re_digit ascii_runtime c = ascii_digit c"
  "int_float ascii_runtime Missing = Rejected"
  "int_float ascii_runtime (Text s) = decimal_value (strip s)"
  "int_float ascii_runtime (Other s) = decimal_value (strip s)"
  by (simp_all add: ascii_runtime_def)

lemmas eval_defs =
  strip_def ascii_def is_space_def lit_def ci_match_def Let_def
  OPTION_START_COL_def COL_START_PART_def COL_FACTORY_def COL_PART_NUMBER_def
  COL_PART_NAME_def COL_SPEC_def COL_QUANTITY_def
  CM_PART_PATTERNS_def A_PARTS_PATTERNS_def EXCLUDE_PART_PATTERNS_def required_headers_def
  is_valid_part_number_def identify_part_type_def
  extract_options_def format_options_def calculate_required_boxes_def
  iloc_def ncols_def load_master_dbs_def find_cm_master_def find_a_parts_master_def
  cm_reference_step_def create_cm_reference_db_def a_reference_step_def
  create_a_parts_reference_db_def create_reference_dbs_def
  find_matrix_row_def cm_create_picking_row_def create_cm_picking_def
  a_create_picking_row_def create_validation_row_def create_a_parts_picking_def
  generate_def invalid_def validate_input_file_def run_def
  ascii_digit_def decimal_value_def replicate_6 ascii_runtime_simps
  sample_row_def sample_matrix_def sample_cm_master_def sample_a_master_def
  sample_environment_def

lemma iloc_Inr: "iloc row i = Inr c \<Longrightarrow> i < length row \<and> c = row ! i"
  by (auto simp: iloc_def split: if_splits)

lemma cm_reference_step_None:
  "cm_reference_step rt master row n = Inr None \<Longrightarrow>
   \<not> cm_emitted rt master (part_number_cell row)"
  by (auto simp: cm_reference_step_def cm_emitted_def part_number_cell_def Let_def
      dest!: iloc_Inr split: sum.splits option.splits if_splits)

lemma cm_reference_step_Some:
  "cm_reference_step rt master row n = Inr (Some r) \<Longrightarrow>
   cm_emitted rt master (part_number_cell row) \<and> cr_part_number r = part_number_cell row"
  by (auto simp: cm_reference_step_def cm_emitted_def part_number_cell_def Let_def
      dest!: iloc_Inr split: sum.splits option.splits if_splits)

lemma a_reference_step_None:
  "a_reference_step rt master row n = Inr None \<Longrightarrow>
   \<not> a_emitted rt master (part_number_cell row)"
  by (auto simp: a_reference_step_def a_emitted_def part_number_cell_def Let_def
      dest!: iloc_Inr split: sum.splits option.splits if_splits)

lemma a_reference_step_Some:
  "a_reference_step rt master row n = Inr (Some r) \<Longrightarrow>
   a_emitted rt master (part_number_cell row) \<and> ar_part_number r = part_number_cell row"
  by (auto simp: a_reference_step_def a_emitted_def part_number_cell_def Let_def
      dest!: iloc_Inr split: sum.splits option.splits if_splits)

lemma cm_reference_loop_parts:
  "cm_reference_loop rt master rows acc = Inr t \<Longrightarrow>
   map cr_part_number t =
     map cr_part_number acc @ filter (cm_emitted rt master) (map part_number_cell rows)"
proof (induction rows arbitrary: acc)
  case Nil
  then show ?case by simp
next
  case (Cons row rows)
  show ?case
  proof (cases "cm_reference_step rt master row (length acc)")
    case (Inl e)
    with Cons.prems show ?thesis by simp
  next
    case (Inr step)
    show ?thesis
    proof (cases step)
      case None
      with Inr Cons.prems Cons.IH [of acc] cm_reference_step_None [of rt master row "length acc"]
      show ?thesis by simp
    next
      case (Some r)
      with Inr Cons.prems Cons.IH [of "acc @ [r]"]
        cm_reference_step_Some [of rt master row "length acc" r]
      show ?thesis by simp
    qed
  qed
qed

lemma a_reference_loop_parts:
  "a_reference_loop rt master rows acc = Inr t \<Longrightarrow>
   map ar_part_number t =
     map ar_part_number acc @ filter (a_emitted rt master) (map part_number_cell rows)"
proof (induction rows arbitrary: acc)
  case Nil
  then show ?case by simp
next
  case (Cons row rows)
  show ?case
  proof (cases "a_reference_step rt master row (length acc)")
    case (Inl e)
    with Cons.prems show ?thesis by simp
  next
    case (Inr step)
    show ?thesis
    proof (cases step)
      case None
      with Inr Cons.prems Cons.IH [of acc] a_reference_step_None [of rt master row "length acc"]
      show ?thesis by simp
    next
      case (Some r)
      with Inr Cons.prems Cons.IH [of "acc @ [r]"]
        a_reference_step_Some [of rt master row "length acc" r]
      show ?thesis by simp
    qed
  qed
qed

lemma cm_reference_step_total:
  "7 \<le> length row \<Longrightarrow> \<exists>step. cm_reference_step rt master row n = Inr step"
  by (simp add: cm_reference_step_def iloc_def Let_def COL_PART_NUMBER_def COL_START_PART_def
      COL_FACTORY_def COL_PART_NAME_def COL_SPEC_def split: option.splits)

lemma cm_reference_loop_total:
  "\<forall>row \<in> set rows. 7 \<le> length row \<Longrightarrow> \<exists>t. cm_reference_loop rt master rows acc = Inr t"
proof (induction rows arbitrary: acc)
  case Nil
  then show ?case by simp
next
  case (Cons row rows)
  then obtain step where "cm_reference_step rt master row (length acc) = Inr step"
    using cm_reference_step_total [of row rt master "length acc"] by auto
  with Cons show ?case by (cases step) simp_all
qed

lemma safe_int_total:
  "int_float rt v \<noteq> Overflow \<Longrightarrow> \<exists>n. safe_int rt v = Inr n"
  by (cases v; cases "int_float rt v") simp_all

lemma find_a_parts_master_total:
  assumes "\<forall>r \<in> set master. int_float rt (am_quantity_per_box r) \<noteq> Overflow"
  shows "\<exists>found. find_a_parts_master rt master pn = Inr found"
proof (cases "filter (\<lambda>r. am_key r = Text pn) master")
  case Nil
  then show ?thesis by (simp add: find_a_parts_master_def)
next
  case (Cons row matched)
  then have "row \<in> set (filter (\<lambda>r. am_key r = Text pn) master)" by simp
  then have "row \<in> set master" by simp
  with assms obtain n where "safe_int rt (am_quantity_per_box row) = Inr n"
    using safe_int_total by blast
  with Cons show ?thesis by (simp add: find_a_parts_master_def)
qed

lemma a_reference_step_total:
  assumes "6 \<le> length row"
    and "\<forall>r \<in> set master. int_float rt (am_quantity_per_box r) \<noteq> Overflow"
  shows "\<exists>step. a_reference_step rt master row n = Inr step"
proof -
  obtain found where "find_a_parts_master rt master (safe_str (row ! 4)) = Inr found"
    using find_a_parts_master_total [OF assms(2)] by blast
  with assms(1) show ?thesis
    by (simp add: a_reference_step_def iloc_def Let_def COL_PART_NUMBER_def COL_START_PART_def
        COL_FACTORY_def COL_PART_NAME_def split: option.splits)
qed

lemma a_reference_loop_total:
  assumes "\<forall>r \<in> set master. int_float rt (am_quantity_per_box r) \<noteq> Overflow"
  shows "\<forall>row \<in> set rows. 6 \<le> length row \<Longrightarrow>
         \<exists>t. a_reference_loop rt master rows acc = Inr t"
proof (induction rows arbitrary: acc)
  case Nil
  then show ?case by simp
next
  case (Cons row rows)
  then obtain step where "a_reference_step rt master row (length acc) = Inr step"
    using a_reference_step_total [of row master rt "length acc"] assms by auto
  with Cons show ?case by (cases step) simp_all
qed

text \<open>
  C4. In each reference table the column No is 1, 2, ..., k for its k rows, and the rows
  are those of the data rows, in their order, whose part number is valid, of the class of
  the table and in its catalog: a skipped row gives no row and takes no number. Each pass
  returns a table when every data row has the columns the pass reads (and, for the A parts,
  no quantity per box of the catalog overflows).
\<close>

theorem reference_numbers_contiguous:
  "(create_cm_reference_db rt df_matrix df_cm_master = Inr t \<longrightarrow>
      map cr_no t = [1..int (length t)] \<and>
      map cr_part_number t =
        filter (cm_emitted rt df_cm_master) (map part_number_cell (drop 1 df_matrix))) \<and>
   (create_a_parts_reference_db rt df_matrix df_a_parts_master = Inr u \<longrightarrow>
      map ar_no u = [1..int (length u)] \<and>
      map ar_part_number u =
        filter (a_emitted rt df_a_parts_master) (map part_number_cell (drop 1 df_matrix))) \<and>
   ((\<forall>row \<in> set (drop 1 df_matrix). 7 \<le> length row) \<longrightarrow>
      (\<exists>t'. create_cm_reference_db rt df_matrix df_cm_master = Inr t')) \<and>
   ((\<forall>row \<in> set (drop 1 df_matrix). 6 \<le> length row) \<and>
    (\<forall>r \<in> set df_a_parts_master. int_float rt (am_quantity_per_box r) \<noteq> Overflow) \<longrightarrow>
      (\<exists>u'. create_a_parts_reference_db rt df_matrix df_a_parts_master = Inr u'))"
proof (intro conjI impI)
  assume "create_cm_reference_db rt df_matrix df_cm_master = Inr t"
  then have loop: "cm_reference_loop rt df_cm_master (drop 1 df_matrix) [] = Inr t"
    by (simp add: create_cm_reference_db_def)
  show "map cr_no t = [1..int (length t)]"
    using cm_reference_loop_no [OF loop] by simp
  show "map cr_part_number t =
        filter (cm_emitted rt df_cm_master) (map part_number_cell (drop 1 df_matrix))"
    using cm_reference_loop_parts [OF loop] by simp
next
  assume "create_a_parts_reference_db rt df_matrix df_a_parts_master = Inr u"
  then have loop: "a_reference_loop rt df_a_parts_master (drop 1 df_matrix) [] = Inr u"
    by (simp add: create_a_parts_reference_db_def)
  show "map ar_no u = [1..int (length u)]"
    using a_reference_loop_no [OF loop] by simp
  show "map ar_part_number u =
        filter (a_emitted rt df_a_parts_master) (map part_number_cell (drop 1 df_matrix))"
    using a_reference_loop_parts [OF loop] by simp
next
  assume "\<forall>row \<in> set (drop 1 df_matrix). 7 \<le> length row"
  then show "\<exists>t'. create_cm_reference_db rt df_matrix df_cm_master = Inr t'"
    unfolding create_cm_reference_db_def by (rule cm_reference_loop_total)
next
  assume "(\<forall>row \<in> set (drop 1 df_matrix). 6 \<le> length row) \<and>
    (\<forall>r \<in> set df_a_parts_master. int_float rt (am_quantity_per_box r) \<noteq> Overflow)"
  then show "\<exists>u'. create_a_parts_reference_db rt df_matrix df_a_parts_master = Inr u'"
    unfolding create_a_parts_reference_db_def using a_reference_loop_total by blast
qed

theorem reference_numbers_contiguous_witness:
  "list_all (\<lambda>row. 7 \<le> length row) (drop 1 sample_matrix) \<and>
   list_all (\<lambda>r. int_float ascii_runtime (am_quantity_per_box r) \<noteq> Overflow)
     sample_a_master \<and>
   (\<exists>t. create_cm_reference_db ascii_runtime sample_matrix sample_cm_master = Inr t \<and>
        map cr_no t = [1, 2] \<and>
        map cr_part_number t = [ascii ''CM123456'', ascii ''C-000001'']) \<and>
   (\<exists>u. create_a_parts_reference_db ascii_runtime sample_matrix sample_a_master = Inr u \<and>
        map ar_no u = [1] \<and> map ar_part_number u = [ascii ''A123456''])"
proof -
  have rows: "\<forall>row \<in> set (drop 1 sample_matrix). 7 \<le> length row"
    by (simp add: sample_matrix_def sample_row_def)
  have boxes: "\<forall>r \<in> set sample_a_master.
      int_float ascii_runtime (am_quantity_per_box r) \<noteq> Overflow"
    by (simp add: sample_a_master_def ascii_runtime_simps decimal_value_def)
  have rows6: "\<forall>row \<in> set (drop 1 sample_matrix). 6 \<le> length row"
    using rows by auto
  obtain t where t: "create_cm_reference_db ascii_runtime sample_matrix sample_cm_master = Inr t"
    using reference_numbers_contiguous
      [of ascii_runtime sample_matrix sample_cm_master "[]" sample_a_master "[]"] rows
    by blast
  obtain u where
    u: "create_a_parts_reference_db ascii_runtime sample_matrix sample_a_master = Inr u"
    using reference_numbers_contiguous
      [of ascii_runtime sample_matrix sample_cm_master "[]" sample_a_master "[]"] rows6 boxes
    by blast
  have cm_parts: "filter (cm_emitted ascii_runtime sample_cm_master)
      (map part_number_cell (drop 1 sample_matrix)) = [ascii ''CM123456'', ascii ''C-000001'']"
    by (simp add: cm_emitted_def part_number_cell_def eval_defs)
  have a_parts: "filter (a_emitted ascii_runtime sample_a_master)
      (map part_number_cell (drop 1 sample_matrix)) = [ascii ''A123456'']"
    by (simp add: a_emitted_def part_number_cell_def eval_defs)
  have tp: "map cr_no t = [1..int (length t)]"
    and tn: "map cr_part_number t = [ascii ''CM123456'', ascii ''C-000001'']"
    using reference_numbers_contiguous
      [of ascii_runtime sample_matrix sample_cm_master t sample_a_master u] t cm_parts
    by simp_all
  have up: "map ar_no u = [1..int (length u)]"
    and un: "map ar_part_number u = [ascii ''A123456'']"
    using reference_numbers_contiguous
      [of ascii_runtime sample_matrix sample_cm_master t sample_a_master u] u a_parts
    by simp_all
  have "length t = 2" using tn by (metis length_map length_Cons list.size(3) numeral_2_eq_2)
  then have t12: "map cr_no t = [1, 2]" using tp by (simp add: upto.simps)
  have "length u = 1" using un by (metis length_map length_Cons list.size(3) One_nat_def)
  then have u1: "map ar_no u = [1]" using up by (simp add: upto.simps)
  show ?thesis
    using rows boxes t u t12 tn u1 un by (simp add: list_all_iff)
qed

lemma boxes_cover:
  fixes q p :: int
  assumes "0 < p"
  shows "q \<le> calculate_required_boxes q p * p"
proof -
  define n where "n = (q + p - 1) div p"
  define r where "r = (q + p - 1) mod p"
  have eq: "q + p - 1 = p * n + r" by (simp add: n_def r_def)
  have "r < p" using assms by (simp add: r_def)
  then have "q \<le> p * n" using eq by simp
  then show ?thesis using assms by (simp add: calculate_required_boxes_def n_def mult.commute)
qed

lemma a_create_picking_row_boxes:
  "a_create_picking_row rt ref_row matrix_row k = Inr p \<Longrightarrow>
   ap_required_boxes p = calculate_required_boxes (ap_quantity p) (ap_quantity_per_box p)"
  by (auto simp: a_create_picking_row_def Let_def split: sum.splits)

lemma verdict_distinct: "ascii ''OK'' \<noteq> ascii ''NG''"
  by (simp add: ascii_def)

lemma a_picking_loop_invariant:
  assumes step: "\<And>ref_row matrix_row k p.
      a_create_picking_row rt ref_row matrix_row k = Inr p \<Longrightarrow>
      R p (create_validation_row p matrix_row)"
  shows "a_picking_loop rt df_matrix refs (ps, vs) = Inr (ps', vs') \<Longrightarrow>
         list_all2 R ps vs \<Longrightarrow> list_all2 R ps' vs'"
proof (induction refs arbitrary: ps vs)
  case Nil
  then show ?case by simp
next
  case (Cons ref_row refs)
  show ?case
  proof (cases "find_matrix_row df_matrix (safe_str (Text (ar_part_number ref_row)))")
    case (Inl e)
    with Cons.prems show ?thesis by simp
  next
    case (Inr found)
    show ?thesis
    proof (cases found)
      case None
      with Inr Cons show ?thesis by simp
    next
      case (Some matrix_row)
      show ?thesis
      proof (cases "a_create_picking_row rt ref_row matrix_row (int (length ps) + 1)")
        case (Inl e)
        with Inr Some Cons.prems show ?thesis by simp
      next
        case made: (Inr p)
        have "list_all2 R (ps @ [p]) (vs @ [create_validation_row p matrix_row])"
          using Cons.prems(2) step [OF made] by (simp add: list_all2_appendI)
        with Cons.IH [of "ps @ [p]" "vs @ [create_validation_row p matrix_row]"]
          Cons.prems(1) Inr Some made
        show ?thesis by simp
      qed
    qed
  qed
qed

text \<open>
  C3. The A-parts picking table and its validation table go row by row. For every
  picking row with a positive quantity per box, required boxes times quantity per box is
  at least the quantity; the validation row records that product and its difference to
  the quantity, and its verdict is OK exactly when the difference is not negative and NG
  exactly when it is negative.
\<close>

theorem a_parts_boxes_and_verdict:
  "create_a_parts_picking rt df_matrix df_a_reference = Inr (picking, validation) \<Longrightarrow>
   list_all2
     (\<lambda>p v.
        (0 < ap_quantity_per_box p \<longrightarrow>
           ap_quantity p \<le> ap_required_boxes p * ap_quantity_per_box p) \<and>
        vr_actual_quantity v = ap_required_boxes p * ap_quantity_per_box p \<and>
        vr_difference v = ap_required_boxes p * ap_quantity_per_box p - ap_quantity p \<and>
        (vr_verdict v = ascii ''OK'' \<longleftrightarrow>
           0 \<le> ap_required_boxes p * ap_quantity_per_box p - ap_quantity p) \<and>
        (vr_verdict v = ascii ''NG'' \<longleftrightarrow>
           ap_required_boxes p * ap_quantity_per_box p - ap_quantity p < 0))
     picking validation"
proof -
  assume "create_a_parts_picking rt df_matrix df_a_reference = Inr (picking, validation)"
  then have loop: "a_picking_loop rt df_matrix df_a_reference ([], []) = Inr (picking, validation)"
    by (auto simp: create_a_parts_picking_def split: sum.splits)
  show ?thesis
  proof (rule a_picking_loop_invariant [OF _ loop])
    fix ref_row matrix_row k p
    assume "a_create_picking_row rt ref_row matrix_row k = Inr p"
    then have boxes: "ap_required_boxes p =
        calculate_required_boxes (ap_quantity p) (ap_quantity_per_box p)"
      by (rule a_create_picking_row_boxes)
    show "(0 < ap_quantity_per_box p \<longrightarrow>
           ap_quantity p \<le> ap_required_boxes p * ap_quantity_per_box p) \<and>
        vr_actual_quantity (create_validation_row p matrix_row) =
          ap_required_boxes p * ap_quantity_per_box p \<and>
        vr_difference (create_validation_row p matrix_row) =
          ap_required_boxes p * ap_quantity_per_box p - ap_quantity p \<and>
        (vr_verdict (create_validation_row p matrix_row) = ascii ''OK'' \<longleftrightarrow>
           0 \<le> ap_required_boxes p * ap_quantity_per_box p - ap_quantity p) \<and>
        (vr_verdict (create_validation_row p matrix_row) = ascii ''NG'' \<longleftrightarrow>
           ap_required_boxes p * ap_quantity_per_box p - ap_quantity p < 0)"
      using boxes_cover [of "ap_quantity_per_box p" "ap_quantity p"] boxes verdict_distinct
      by (auto simp: create_validation_row_def Let_def)
  qed simp
qed

theorem a_parts_boxes_and_verdict_witness:
  "\<exists>picking validation.
     create_a_parts_picking ascii_runtime sample_matrix sample_a_reference
       = Inr (picking, validation) \<and>
     map ap_quantity picking = [25, 3] \<and>
     map ap_quantity_per_box picking = [10, 0] \<and>
     map ap_required_boxes picking = [3, 0] \<and>
     0 < ap_quantity_per_box (picking ! 0) \<and>
     ap_quantity (picking ! 0) \<le> ap_required_boxes (picking ! 0) * ap_quantity_per_box (picking ! 0) \<and>
     map vr_actual_quantity validation = [30, 0] \<and>
     map vr_verdict validation = [ascii ''OK'', ascii ''NG'']"
proof -
  obtain picking validation where
    made: "create_a_parts_picking ascii_runtime sample_matrix sample_a_reference
       = Inr (picking, validation)"
    and q: "map ap_quantity picking = [25, 3]"
    and b: "map ap_quantity_per_box picking = [10, 0]"
    and r: "map ap_required_boxes picking = [3, 0]"
    and a: "map vr_actual_quantity validation = [30, 0]"
    and v: "map vr_verdict validation = [ascii ''OK'', ascii ''NG'']"
    by (simp add: eval_defs sample_a_reference_def)
  have pos: "0 < ap_quantity_per_box (picking ! 0)"
    using b by (cases picking) auto
  have "list_all2
     (\<lambda>p v.
        (0 < ap_quantity_per_box p \<longrightarrow>
           ap_quantity p \<le> ap_required_boxes p * ap_quantity_per_box p) \<and>
        vr_actual_quantity v = ap_required_boxes p * ap_quantity_per_box p \<and>
        vr_difference v = ap_required_boxes p * ap_quantity_per_box p - ap_quantity p \<and>
        (vr_verdict v = ascii ''OK'' \<longleftrightarrow>
           0 \<le> ap_required_boxes p * ap_quantity_per_box p - ap_quantity p) \<and>
        (vr_verdict v = ascii ''NG'' \<longleftrightarrow>
           ap_required_boxes p * ap_quantity_per_box p - ap_quantity p < 0))
     picking validation"
    using a_parts_boxes_and_verdict [OF made] .
  moreover have "0 < length picking" using q by (cases picking) auto
  ultimately have "0 < ap_quantity_per_box (picking ! 0) \<longrightarrow>
      ap_quantity (picking ! 0)
        \<le> ap_required_boxes (picking ! 0) * ap_quantity_per_box (picking ! 0)"
    by (auto simp: list_all2_conv_all_nth)
  with pos have cover: "ap_quantity (picking ! 0)
        \<le> ap_required_boxes (picking ! 0) * ap_quantity_per_box (picking ! 0)"
    by simp
  show ?thesis
    by (rule exI [of _ picking], rule exI [of _ validation]) (simp only: made q b r a v pos cover)
qed

lemma map_upt_shift:
  "map (\<lambda>i. n + int i) [0..<Suc k] = n # map (\<lambda>i. n + 1 + int i) [0..<k]"
proof -
  have "[0..<Suc k] = 0 # map Suc [0..<k]"
    by (simp add: upt_conv_Cons map_Suc_upt del: upt_Suc)
  then show ?thesis by (simp add: comp_def add.assoc del: upt_Suc)
qed

lemma map_upt_upto: "map (\<lambda>i. 1 + int i) [0..<k] = [1..int k]"
proof (induction k)
  case 0
  then show ?case by simp
next
  case (Suc k)
  have "[1..int k + 1] = [1..int k] @ [int k + 1]" by (simp add: upto_rec2)
  with Suc show ?case by (simp add: add.commute)
qed

lemma generate_cm_loop_snd:
  "snd (generate_cm_loop slip delivery rows (acc, n)) = n + int (length rows)"
  by (induction rows arbitrary: acc n) simp_all

lemma generate_cm_loop_lines:
  "map s_line_number (fst (generate_cm_loop slip delivery rows (acc, n))) =
     map s_line_number acc @ map (\<lambda>i. n + int i) [0..<length rows]"
proof (induction rows arbitrary: acc n)
  case Nil
  then show ?case by simp
next
  case (Cons row rows)
  show ?case
    by (simp add: Cons map_upt_shift del: upt_Suc)
qed

lemma generate_cm_loop_fields:
  "map s_part_number (fst (generate_cm_loop slip delivery rows (acc, n))) =
     map s_part_number acc @ map (\<lambda>r. strip (cp_part_number r)) rows \<and>
   map s_quantity (fst (generate_cm_loop slip delivery rows (acc, n))) =
     map s_quantity acc @ map cp_quantity rows \<and>
   map s_remarks (fst (generate_cm_loop slip delivery rows (acc, n))) =
     map s_remarks acc @ map (\<lambda>r. strip (cp_options r)) rows"
  by (induction rows arbitrary: acc n) simp_all

lemma generate_a_loop_snd:
  "snd (generate_a_loop slip delivery rows (acc, n)) = n + int (length rows)"
  by (induction rows arbitrary: acc n) simp_all

lemma generate_a_loop_lines:
  "map s_line_number (fst (generate_a_loop slip delivery rows (acc, n))) =
     map s_line_number acc @ map (\<lambda>i. n + int i) [0..<length rows]"
proof (induction rows arbitrary: acc n)
  case Nil
  then show ?case by simp
next
  case (Cons row rows)
  show ?case
    by (simp add: Cons map_upt_shift del: upt_Suc)
qed

lemma generate_a_loop_fields:
  "map s_part_number (fst (generate_a_loop slip delivery rows (acc, n))) =
     map s_part_number acc @ map (\<lambda>r. strip (ap_part_number r)) rows \<and>
   map s_quantity (fst (generate_a_loop slip delivery rows (acc, n))) =
     map s_quantity acc @ map ap_quantity rows \<and>
   map s_remarks (fst (generate_a_loop slip delivery rows (acc, n))) =
     map s_remarks acc @ map (\<lambda>r. strip (ap_options r)) rows"
  by (induction rows arbitrary: acc n) simp_all

lemma generate_a_loop_Nil: "generate_a_loop slip delivery [] st = st"
  by (cases st) simp

lemma generate_unfold:
  "generate slip delivery cm a =
     fst (generate_a_loop slip delivery (a_rows_of a)
            (generate_cm_loop slip delivery cm ([], 1)))"
  by (cases a; cases "a_rows_of a")
     (auto simp: generate_def a_rows_of_def Let_def generate_a_loop_Nil)

lemma generate_parts:
  "map s_line_number (generate slip delivery cm a) =
     map (\<lambda>i. 1 + int i) [0..<length cm] @
     map (\<lambda>i. 1 + int (length cm) + int i) [0..<length (a_rows_of a)] \<and>
   map s_part_number (generate slip delivery cm a) =
     map (\<lambda>r. strip (cp_part_number r)) cm @
     map (\<lambda>r. strip (ap_part_number r)) (a_rows_of a) \<and>
   map s_quantity (generate slip delivery cm a) =
     map cp_quantity cm @ map ap_quantity (a_rows_of a) \<and>
   map s_remarks (generate slip delivery cm a) =
     map (\<lambda>r. strip (cp_options r)) cm @ map (\<lambda>r. strip (ap_options r)) (a_rows_of a)"
proof -
  obtain rows n where st: "generate_cm_loop slip delivery cm ([], 1) = (rows, n)"
    by (cases "generate_cm_loop slip delivery cm ([], 1)")
  have n: "n = 1 + int (length cm)"
    using generate_cm_loop_snd [of slip delivery cm "[]" 1] st by simp
  have lines: "map s_line_number rows = map (\<lambda>i. 1 + int i) [0..<length cm]"
    using generate_cm_loop_lines [of slip delivery cm "[]" 1] st by simp
  have fields: "map s_part_number rows = map (\<lambda>r. strip (cp_part_number r)) cm"
    "map s_quantity rows = map cp_quantity cm"
    "map s_remarks rows = map (\<lambda>r. strip (cp_options r)) cm"
    using generate_cm_loop_fields [of slip delivery cm "[]" 1] st by simp_all
  show ?thesis
    unfolding generate_unfold st
    using generate_a_loop_lines [of slip delivery "a_rows_of a" rows n]
      generate_a_loop_fields [of slip delivery "a_rows_of a" rows n]
    by (simp add: n lines fields)
qed

lemma upto_block: "map (\<lambda>i. 1 + int m + int i) [0..<k] = [int m + 1..int m + int k]"
proof (induction k)
  case 0
  then show ?case by simp
next
  case (Suc k)
  have "[int m + 1..int m + int k + 1] = [int m + 1..int m + int k] @ [int m + int k + 1]"
    by (simp add: upto_rec2)
  with Suc show ?case by (simp add: add.commute add.left_commute)
qed

lemma upto_join: "[1..int m] @ [int m + 1..int m + int k] = [1..int (m + k)]"
proof (cases m)
  case 0
  then show ?thesis by simp
next
  case (Suc m')
  then have "1 \<le> int m" and "int m \<le> int m + int k" by simp_all
  then have "[1..int m + int k] = [1..int m] @ [int m + 1..int m + int k]"
    by (rule upto_split2)
  then show ?thesis by (simp only: of_nat_add)
qed

text \<open>
  C5. The row assembler emits one line for each CM picking row, in the order of the
  table, and then one for each A-parts picking row when that table is given; with m CM
  rows and n A-parts rows the line numbers are 1, ..., m + n, those of the CM rows
  1, ..., m and those of the A-parts rows m + 1, ..., m + n.
\<close>

theorem legacy_lines_contiguous:
  "length (generate slip delivery cm a) = length cm + length (a_rows_of a) \<and>
   map s_line_number (generate slip delivery cm a) =
     [1..int (length cm + length (a_rows_of a))] \<and>
   map s_line_number (take (length cm) (generate slip delivery cm a)) =
     [1..int (length cm)] \<and>
   map s_line_number (drop (length cm) (generate slip delivery cm a)) =
     [int (length cm) + 1..int (length cm) + int (length (a_rows_of a))] \<and>
   map s_part_number (generate slip delivery cm a) =
     map (\<lambda>r. strip (cp_part_number r)) cm @
     map (\<lambda>r. strip (ap_part_number r)) (a_rows_of a) \<and>
   map s_quantity (generate slip delivery cm a) =
     map cp_quantity cm @ map ap_quantity (a_rows_of a) \<and>
   map s_remarks (generate slip delivery cm a) =
     map (\<lambda>r. strip (cp_options r)) cm @ map (\<lambda>r. strip (ap_options r)) (a_rows_of a)"
proof -
  let ?out = "generate slip delivery cm a"
  have lines: "map s_line_number ?out =
      [1..int (length cm)] @
      [int (length cm) + 1..int (length cm) + int (length (a_rows_of a))]"
    using generate_parts [of slip delivery cm a] by (simp add: map_upt_upto upto_block)
  have len: "length ?out = length cm + length (a_rows_of a)"
    using generate_parts [of slip delivery cm a]
    by (metis length_append length_map)
  have cm_len: "length [1..int (length cm)] = length cm" by simp
  have "map s_line_number (take (length cm) ?out) = take (length cm) (map s_line_number ?out)"
    by (simp add: take_map)
  also have "\<dots> = [1..int (length cm)]"
    unfolding lines using cm_len by (metis append_eq_conv_conj)
  finally have first: "map s_line_number (take (length cm) ?out) = [1..int (length cm)]" .
  have "map s_line_number (drop (length cm) ?out) = drop (length cm) (map s_line_number ?out)"
    by (simp add: drop_map)
  also have "\<dots> = [int (length cm) + 1..int (length cm) + int (length (a_rows_of a))]"
    unfolding lines using cm_len by (metis append_eq_conv_conj)
  finally have second: "map s_line_number (drop (length cm) ?out) =
      [int (length cm) + 1..int (length cm) + int (length (a_rows_of a))]" .
  show ?thesis
    using len lines first second generate_parts [of slip delivery cm a]
    by (simp add: upto_join)
qed

lemma replicate_7: "replicate 7 x = [x, x, x, x, x, x, x]"
  by (simp add: eval_nat_numeral)

lemmas more_eval_defs =
  wrong_header_environment_def wrong_header_matrix_def short_environment_def
  missing_frame_environment_def missing_frame_matrix_def missing_catalog_environment_def
  sample_header_def renamed_a_master_def replicate_7 header_errors_def header_check_def
  header_problem_def readable_def without_part_names_def

lemma header_loop_eq:
  "header_loop df hs errs = errs @ concat (map (header_check df) hs)"
  by (induction hs arbitrary: errs) (auto simp: header_check_def Let_def)

lemma header_loop_errors: "header_loop df required_headers [] = header_errors df"
  by (simp add: header_loop_eq header_errors_def)



lemma is_space_white_space: "is_space c = (c \<in> white_space)"
  unfolding is_space_def white_space_def by (simp only: insert_iff empty_iff) arith

lemma trimmed_strip:
  assumes "trimmed s t"
  shows "strip s = t"
proof -
  from assms obtain l r where s: "s = l @ t @ r"
    and l: "set l \<subseteq> white_space" and r: "set r \<subseteq> white_space"
    and h: "\<not> (\<exists>c u. t = c # u \<and> c \<in> white_space)"
    and e: "\<not> (\<exists>c u. t = u @ [c] \<and> c \<in> white_space)"
    unfolding trimmed_def by blast
  have dl: "dropWhile is_space (l @ t @ r) = dropWhile is_space (t @ r)"
    using l by (intro dropWhile_append2) (auto simp: is_space_white_space)
  show ?thesis
  proof (cases "t = []")
    case True
    have "\<forall>x\<in>set (l @ r). is_space x"
      using l r by (auto simp: is_space_white_space)
    then have e: "dropWhile is_space (l @ r) = []"
      by (simp only: dropWhile_eq_Nil_conv)
    show ?thesis
      unfolding strip_def s True by (simp only: append_Nil e rev.simps dropWhile.simps)
  next
    case False
    then obtain c u where cu: "t = c # u" by (cases t) auto
    with h have c: "\<not> is_space c" by (simp add: is_space_white_space)
    have d1: "dropWhile is_space (t @ r) = t @ r" by (simp add: cu c)
    from False obtain v b where vb: "t = v @ [b]" by (cases t rule: rev_cases) auto
    with e have b: "\<not> is_space b" by (simp add: is_space_white_space)
    have rr: "dropWhile is_space (rev r) = []"
      using r by (auto simp: is_space_white_space)
    have "dropWhile is_space (rev (t @ r)) = dropWhile is_space (rev r @ rev t)" by simp
    also have "\<dots> = dropWhile is_space (rev t)"
      using r by (intro dropWhile_append2) (auto simp: is_space_white_space)
    also have "\<dots> = rev t" by (simp add: vb b)
    finally show ?thesis by (simp add: strip_def s dl d1)
  qed
qed

lemma strip_last: "\<not> (\<exists>c u. strip s = u @ [c] \<and> is_space c)"
proof
  assume "\<exists>c u. strip s = u @ [c] \<and> is_space c"
  then obtain c u where 1: "strip s = u @ [c]" and 2: "is_space c" by blast
  define d where "d = dropWhile is_space (rev (dropWhile is_space s))"
  have "rev d = u @ [c]" using 1 by (simp add: strip_def d_def)
  then have "d = c # rev u" by (metis rev_rev_ident rev.simps(2) rev_append rev_singleton_conv append_Nil append_Cons)
  moreover have "d = [] \<or> \<not> is_space (hd d)"
    unfolding d_def by (metis hd_dropWhile)
  ultimately show False using 2 by simp
qed

lemma strip_trimmed: "trimmed s (strip s)"
proof -
  define d where "d = dropWhile is_space s"
  define l where "l = takeWhile is_space s"
  define r where "r = rev (takeWhile is_space (rev d))"
  have s: "s = l @ d" by (simp add: l_def d_def)
  have "d = rev (dropWhile is_space (rev d)) @ rev (takeWhile is_space (rev d))"
    by (metis rev_append rev_rev_ident takeWhile_dropWhile_id)
  then have d: "d = strip s @ r" by (simp add: strip_def r_def d_def)
  have 1: "s = l @ strip s @ r" using s d by simp
  have 2: "set l \<subseteq> white_space"
    by (auto simp: l_def is_space_white_space [symmetric] dest: set_takeWhileD)
  have 3: "set r \<subseteq> white_space"
    by (auto simp: r_def is_space_white_space [symmetric] dest: set_takeWhileD)
  have 4: "\<not> (\<exists>c u. strip s = c # u \<and> c \<in> white_space)"
    using strip_head [of s] by (auto simp: is_space_white_space)
  have 5: "\<not> (\<exists>c u. strip s = u @ [c] \<and> c \<in> white_space)"
    using strip_last [of s] by (simp add: is_space_white_space)
  show ?thesis unfolding trimmed_def using 1 2 3 4 5 by blast
qed

lemma cell_string_safe_str: "cell_string c t = (safe_str c = t)"
proof (cases c)
  case Missing
  then show ?thesis by auto
next
  case (Text s)
  then show ?thesis using trimmed_strip [of s t] strip_trimmed [of s] by auto
next
  case (Other s)
  then show ?thesis using trimmed_strip [of s t] strip_trimmed [of s] by auto
qed

lemma list_all2_swap: "list_all2 (\<lambda>c p. R p c) u w = list_all2 R w u"
  by (auto simp: list_all2_conv_all_nth)

lemma ci_prefix_split:
  "ci_prefix w t = (\<exists>u v. t = u @ v \<and> list_all2 (\<lambda>c p. ci_match p c) u (ascii w))"
proof
  assume a: "ci_prefix w t"
  then have "list_all2 ci_match (ascii w) (take (length w) t)"
    by (simp add: ci_prefix_def)
  then have "list_all2 (\<lambda>c p. ci_match p c) (take (length w) t) (ascii w)"
    by (rule list_all2_swap [THEN iffD2])
  moreover have "t = take (length w) t @ drop (length w) t" by simp
  ultimately show "\<exists>u v. t = u @ v \<and> list_all2 (\<lambda>c p. ci_match p c) u (ascii w)"
    by blast
next
  assume "\<exists>u v. t = u @ v \<and> list_all2 (\<lambda>c p. ci_match p c) u (ascii w)"
  then obtain u v where t: "t = u @ v" and m: "list_all2 (\<lambda>c p. ci_match p c) u (ascii w)"
    by blast
  from m have "length u = length (ascii w)" by (rule list_all2_lengthD)
  then have len: "length u = length w" by (simp add: ascii_def)
  from m have "list_all2 ci_match (ascii w) u" by (rule list_all2_swap [THEN iffD1])
  then show "ci_prefix w t" by (simp add: ci_prefix_def t len)
qed

lemma excluded_prefix_ci_prefix:
  "excluded_prefix t = (ci_prefix ''FRAME'' t \<or> ci_prefix ''SET'' t \<or> ci_prefix ''KIT'' t)"
proof -
  have f: "list_all2 (\<lambda>c p. ci_match p c) u (ascii ''FRAME'') =
      list_all2 (\<in>) u [{70, 102}, {82, 114}, {65, 97}, {77, 109}, {69, 101}]" for u
    by (auto simp: list_all2_Cons2 ci_match_def ascii_def)
  have s: "list_all2 (\<lambda>c p. ci_match p c) u (ascii ''SET'') =
      list_all2 (\<in>) u [{83, 115, 383}, {69, 101}, {84, 116}]" for u
    by (auto simp: list_all2_Cons2 ci_match_def ascii_def)
  have k: "list_all2 (\<lambda>c p. ci_match p c) u (ascii ''KIT'') =
      list_all2 (\<in>) u [{75, 107, 8490}, {73, 105, 304, 305}, {84, 116}]" for u
    by (auto simp: list_all2_Cons2 ci_match_def ascii_def)
  show ?thesis
    unfolding excluded_prefix_def ci_prefix_split f s k by blast
qed

lemma screen_trimmed:
  assumes "trimmed s t"
  shows "is_valid_part_number rt s =
     (t \<noteq> [] \<and> 6 \<le> length t \<and> length t \<le> 20 \<and> \<not> excluded_prefix t)"
  using trimmed_strip [OF assms]
  by (auto simp: is_valid_part_number_iff excluded_prefix_ci_prefix)

lemma join_concat: "join sep (x # xs) = x @ concat (map (\<lambda>y. sep @ y) xs)"
  by (induction xs arbitrary: x) simp_all

lemma cell_strings_safe_str: "list_all2 cell_string cells ts = (map safe_str cells = ts)"
proof (induction cells arbitrary: ts)
  case Nil
  then show ?case by auto
next
  case (Cons c cells)
  then show ?case by (cases ts) (auto simp: cell_string_safe_str)
qed

lemma format_extract:
  "format_options (extract_options row OPTION_START_COL) =
     (case filter (\<lambda>t. t \<notin> {[], [45], [110, 97, 110]}) (map safe_str (drop 11 row)) of
        [] \<Rightarrow> []
      | x # xs \<Rightarrow> x @ concat (map (\<lambda>y. [32, 47, 32] @ y) xs))"
proof -
  have p: "(\<lambda>v. v \<noteq> [] \<and> v \<noteq> ascii ''-'' \<and> v \<noteq> ascii ''nan'') =
      (\<lambda>t. t \<notin> {[], [45], [110, 97, 110]})"
    by (auto simp: ascii_def)
  have sep: "ascii '' / '' = [32, 47, 32]" by (simp add: ascii_def)
  define kept where
    "kept = filter (\<lambda>t. t \<notin> {[], [45], [110, 97, 110]}) (map safe_str (drop 11 row))"
  have fo: "format_options (extract_options row OPTION_START_COL) =
      (if kept = [] then [] else join [32, 47, 32] kept)"
    unfolding format_options_def extract_options_def OPTION_START_COL_def
      extract_options_loop_filter p sep kept_def
    by simp
  have "(if kept = [] then [] else join [32, 47, 32] kept) =
      (case kept of [] \<Rightarrow> [] | x # xs \<Rightarrow> x @ concat (map (\<lambda>y. [32, 47, 32] @ y) xs))"
    by (cases kept)
       (simp_all only: join_concat list.case if_True if_False list.distinct refl)
  with fo show ?thesis unfolding kept_def by (rule trans)
qed

text \<open>
  C6. For every part-number cell, with \<open>t\<close> its trimmed string, the validity screen
  accepts the cell exactly when \<open>t\<close> is not empty, has 6 to 20 characters and does not
  start, in any case, with FRAME, SET or KIT; every cell has one such trimmed string, and
  the screen itself trims the string it is given. A part number of trimmed length 5 is
  rejected, and a row whose part number the screen rejects is skipped by both reference
  passes whatever its class: a part number of 21 characters of the form of an A part or
  a CM part, which is in the catalog, is skipped, and the one of 20 characters is taken.
  Padded, upper-case, lower-case and mixed-case part numbers are evaluated.
\<close>

theorem part_number_screen:
  "(cell_string c t \<longrightarrow>
      (is_valid_part_number rt (safe_str c) \<longleftrightarrow>
         t \<noteq> [] \<and> 6 \<le> length t \<and> length t \<le> 20 \<and> \<not> excluded_prefix t)) \<and>
   (trimmed s t \<longrightarrow>
      (is_valid_part_number rt s \<longleftrightarrow>
         t \<noteq> [] \<and> 6 \<le> length t \<and> length t \<le> 20 \<and> \<not> excluded_prefix t)) \<and>
   (\<exists>t. cell_string c t) \<and>
   (cell_string c t \<and> cell_string c t' \<longrightarrow> t = t') \<and>
   (cell_string c t \<and> length t = 5 \<longrightarrow> \<not> is_valid_part_number rt (safe_str c)) \<and>
   (\<not> is_valid_part_number rt (safe_str c) \<and> iloc row COL_PART_NUMBER = Inr c \<longrightarrow>
      cm_reference_step rt df_cm_master row n = Inr None \<and>
      a_reference_step rt df_a_parts_master row k = Inr None) \<and>
   \<not> is_valid_part_number rt (safe_str (Text (ascii ''A1234''))) \<and>
   \<not> is_valid_part_number rt (safe_str (Text (ascii ''  A1234  ''))) \<and>
   \<not> is_valid_part_number rt (safe_str (Text ([9, 12288] @ ascii ''A1234'' @ [160, 10]))) \<and>
   safe_str (Text ([9, 12288] @ ascii ''A1234'' @ [160, 10])) = [65, 49, 50, 51, 52] \<and>
   is_valid_part_number rt (safe_str (Text (ascii ''A12345''))) \<and>
   is_valid_part_number rt (safe_str (Other (ascii '' A123456 ''))) \<and>
   is_valid_part_number rt (safe_str (Text (ascii ''  A1234567890123456789  ''))) \<and>
   \<not> is_valid_part_number rt (safe_str (Text (ascii ''A12345678901234567890''))) \<and>
   \<not> is_valid_part_number rt (safe_str (Text (ascii ''FRAME00001''))) \<and>
   \<not> is_valid_part_number rt (safe_str (Text (ascii ''frame00001''))) \<and>
   \<not> is_valid_part_number rt (safe_str (Text (ascii '' FrAmE-01 ''))) \<and>
   \<not> is_valid_part_number rt (safe_str (Text (ascii ''Set12345''))) \<and>
   \<not> is_valid_part_number rt (safe_str (Text (ascii ''kit-0001''))) \<and>
   \<not> is_valid_part_number rt (safe_str (Text (383 # ascii ''et12345''))) \<and>
   \<not> is_valid_part_number rt (safe_str (Text (8490 # 305 # ascii ''t-0001''))) \<and>
   is_valid_part_number rt (safe_str (Text (ascii ''AFRAME01''))) \<and>
   is_valid_part_number rt (safe_str (Text (ascii ''FRAM-0001''))) \<and>
   \<not> is_valid_part_number rt (safe_str (Text (ascii ''   ''))) \<and>
   \<not> is_valid_part_number rt (safe_str Missing) \<and>
   identify_part_type ascii_runtime (ascii ''A12345678901234567890'') = A_PARTS \<and>
   a_reference_step ascii_runtime
     [\<lparr> am_key = Text (ascii ''A12345678901234567890''), am_part_name = Missing,
        am_storage_location = Missing, am_rack = Missing,
        am_quantity_per_box = Other (ascii ''10'') \<rparr>]
     (sample_row ''A12345678901234567890'' ''bolt'' ''1'' []) 0 = Inr None \<and>
   a_reference_step ascii_runtime
     [\<lparr> am_key = Text (ascii ''A1234567890123456789''), am_part_name = Missing,
        am_storage_location = Missing, am_rack = Missing,
        am_quantity_per_box = Other (ascii ''10'') \<rparr>]
     (sample_row ''A1234567890123456789'' ''bolt'' ''1'' []) 0 =
     Inr (Some \<lparr> ar_no = 1, ar_start_part_number = ascii ''S-1'', ar_factory = ascii ''F1'',
       ar_part_number = ascii ''A1234567890123456789'', ar_part_name = ascii ''bolt'',
       ar_storage_location = [], ar_rack = [], ar_quantity_per_box = 10 \<rparr>) \<and>
   identify_part_type ascii_runtime (ascii ''CM1234567890123456789'') = CM \<and>
   cm_reference_step ascii_runtime
     [\<lparr> cm_key = Text (ascii ''CM1234567890123456789''), cm_box_code = Missing,
        cm_box_name = Missing, cm_storage_location = Missing \<rparr>]
     (sample_row ''CM1234567890123456789'' ''box'' ''1'' []) 0 = Inr None"
proof -
  have g1: "cell_string c t \<longrightarrow>
      (is_valid_part_number rt (safe_str c) \<longleftrightarrow>
         t \<noteq> [] \<and> 6 \<le> length t \<and> length t \<le> 20 \<and> \<not> excluded_prefix t)"
    using screen_trimmed [OF strip_trimmed, of rt "safe_str c"]
    by (auto simp: cell_string_safe_str safe_str_strip)
  have g2: "trimmed s t \<longrightarrow>
      (is_valid_part_number rt s \<longleftrightarrow>
         t \<noteq> [] \<and> 6 \<le> length t \<and> length t \<le> 20 \<and> \<not> excluded_prefix t)"
    using screen_trimmed [of s t rt] by blast
  have g3: "\<exists>t. cell_string c t" by (simp add: cell_string_safe_str)
  have g4: "cell_string c t \<and> cell_string c t' \<longrightarrow> t = t'"
    by (auto simp: cell_string_safe_str)
  have g5: "cell_string c t \<and> length t = 5 \<longrightarrow> \<not> is_valid_part_number rt (safe_str c)"
    using g1 by auto
  have g6: "\<not> is_valid_part_number rt (safe_str c) \<and> iloc row COL_PART_NUMBER = Inr c \<longrightarrow>
      cm_reference_step rt df_cm_master row n = Inr None \<and>
      a_reference_step rt df_a_parts_master row k = Inr None"
    by (simp add: cm_reference_step_def a_reference_step_def Let_def)
  have e1: "\<not> is_valid_part_number rt (safe_str (Text (ascii ''A1234'')))"
    and e2: "\<not> is_valid_part_number rt (safe_str (Text (ascii ''  A1234  '')))"
    and e3: "\<not> is_valid_part_number rt
        (safe_str (Text ([9, 12288] @ ascii ''A1234'' @ [160, 10])))"
    and e4: "safe_str (Text ([9, 12288] @ ascii ''A1234'' @ [160, 10])) = [65, 49, 50, 51, 52]"
    and e5: "is_valid_part_number rt (safe_str (Text (ascii ''A12345'')))"
    and e6: "is_valid_part_number rt (safe_str (Other (ascii '' A123456 '')))"
    and e7: "is_valid_part_number rt (safe_str (Text (ascii ''  A1234567890123456789  '')))"
    and e8: "\<not> is_valid_part_number rt (safe_str (Text (ascii ''A12345678901234567890'')))"
    by (simp_all add: eval_defs)
  have f1: "\<not> is_valid_part_number rt (safe_str (Text (ascii ''FRAME00001'')))"
    and f2: "\<not> is_valid_part_number rt (safe_str (Text (ascii ''frame00001'')))"
    and f3: "\<not> is_valid_part_number rt (safe_str (Text (ascii '' FrAmE-01 '')))"
    and f4: "\<not> is_valid_part_number rt (safe_str (Text (ascii ''Set12345'')))"
    and f5: "\<not> is_valid_part_number rt (safe_str (Text (ascii ''kit-0001'')))"
    and f6: "\<not> is_valid_part_number rt (safe_str (Text (383 # ascii ''et12345'')))"
    and f7: "\<not> is_valid_part_number rt (safe_str (Text (8490 # 305 # ascii ''t-0001'')))"
    and f8: "is_valid_part_number rt (safe_str (Text (ascii ''AFRAME01'')))"
    and f9: "is_valid_part_number rt (safe_str (Text (ascii ''FRAM-0001'')))"
    and f10: "\<not> is_valid_part_number rt (safe_str (Text (ascii ''   '')))"
    and f11: "\<not> is_valid_part_number rt (safe_str Missing)"
    by (simp_all add: eval_defs)
  have h1: "identify_part_type ascii_runtime (ascii ''A12345678901234567890'') = A_PARTS"
    by (simp add: eval_defs replicate_6 ascii_runtime_simps ascii_digit_def)
  have h2: "a_reference_step ascii_runtime
     [\<lparr> am_key = Text (ascii ''A12345678901234567890''), am_part_name = Missing,
        am_storage_location = Missing, am_rack = Missing,
        am_quantity_per_box = Other (ascii ''10'') \<rparr>]
     (sample_row ''A12345678901234567890'' ''bolt'' ''1'' []) 0 = Inr None"
    by (simp add: eval_defs sample_row_def)
  have h3: "a_reference_step ascii_runtime
     [\<lparr> am_key = Text (ascii ''A1234567890123456789''), am_part_name = Missing,
        am_storage_location = Missing, am_rack = Missing,
        am_quantity_per_box = Other (ascii ''10'') \<rparr>]
     (sample_row ''A1234567890123456789'' ''bolt'' ''1'' []) 0 =
     Inr (Some \<lparr> ar_no = 1, ar_start_part_number = ascii ''S-1'', ar_factory = ascii ''F1'',
       ar_part_number = ascii ''A1234567890123456789'', ar_part_name = ascii ''bolt'',
       ar_storage_location = [], ar_rack = [], ar_quantity_per_box = 10 \<rparr>)"
    by (simp add: eval_defs sample_row_def replicate_6 ascii_runtime_simps ascii_digit_def
        decimal_value_def)
  have h4: "identify_part_type ascii_runtime (ascii ''CM1234567890123456789'') = CM"
    by (simp add: eval_defs replicate_6 ascii_runtime_simps ascii_digit_def)
  have h5: "cm_reference_step ascii_runtime
     [\<lparr> cm_key = Text (ascii ''CM1234567890123456789''), cm_box_code = Missing,
        cm_box_name = Missing, cm_storage_location = Missing \<rparr>]
     (sample_row ''CM1234567890123456789'' ''box'' ''1'' []) 0 = Inr None"
    by (simp add: eval_defs sample_row_def)
  show ?thesis
    by (intro conjI g1 g2 g3 g4 g5 g6 e1 e2 e3 e4 e5 e6 e7 e8 f1 f2 f3 f4 f5 f6 f7 f8 f9 f10 f11
        h1 h2 h3 h4 h5)
qed

theorem part_number_screen_witness:
  "cell_string (Text (ascii ''  A1234  '')) (ascii ''A1234'') \<and>
   length (ascii ''A1234'') = 5 \<and>
   \<not> is_valid_part_number ascii_runtime (safe_str (Text (ascii ''  A1234  ''))) \<and>
   iloc (sample_row ''  A1234  '' ''bolt'' ''1'' []) COL_PART_NUMBER
     = Inr (Text (ascii ''  A1234  '')) \<and>
   cm_reference_step ascii_runtime sample_cm_master
     (sample_row ''  A1234  '' ''bolt'' ''1'' []) 0 = Inr None \<and>
   a_reference_step ascii_runtime sample_a_master
     (sample_row ''  A1234  '' ''bolt'' ''1'' []) 0 = Inr None \<and>
   cell_string (Other (ascii '' kit-0001 '')) (ascii ''kit-0001'') \<and>
   excluded_prefix (ascii ''kit-0001'') \<and>
   \<not> is_valid_part_number ascii_runtime (safe_str (Other (ascii '' kit-0001 ''))) \<and>
   cell_string (Text (ascii '' A123456 '')) (ascii ''A123456'') \<and>
   \<not> excluded_prefix (ascii ''A123456'') \<and>
   is_valid_part_number ascii_runtime (safe_str (Text (ascii '' A123456 '')))"
proof -
  have c1: "cell_string (Text (ascii ''  A1234  '')) (ascii ''A1234'')"
    using strip_trimmed [of "ascii ''  A1234  ''"] by (simp add: eval_defs)
  have l1: "length (ascii ''A1234'') = 5" by (simp add: ascii_def)
  have i1: "iloc (sample_row ''  A1234  '' ''bolt'' ''1'' []) COL_PART_NUMBER
     = Inr (Text (ascii ''  A1234  ''))"
    by (simp add: iloc_def sample_row_def COL_PART_NUMBER_def)
  have c2: "cell_string (Other (ascii '' kit-0001 '')) (ascii ''kit-0001'')"
    using strip_trimmed [of "ascii '' kit-0001 ''"] by (simp add: eval_defs)
  have x2: "excluded_prefix (ascii ''kit-0001'')"
    by (simp add: excluded_prefix_ci_prefix ci_prefix_def ascii_def ci_match_def)
  have l2: "ascii ''kit-0001'' \<noteq> [] \<and> 6 \<le> length (ascii ''kit-0001'') \<and>
      length (ascii ''kit-0001'') \<le> 20"
    by (simp add: ascii_def)
  have c3: "cell_string (Text (ascii '' A123456 '')) (ascii ''A123456'')"
    using strip_trimmed [of "ascii '' A123456 ''"] by (simp add: eval_defs)
  have x3: "\<not> excluded_prefix (ascii ''A123456'')"
    by (simp add: excluded_prefix_ci_prefix ci_prefix_def ascii_def ci_match_def)
  have l3: "ascii ''A123456'' \<noteq> [] \<and> 6 \<le> length (ascii ''A123456'') \<and>
      length (ascii ''A123456'') \<le> 20"
    by (simp add: ascii_def)
  note short = part_number_screen [where c = "Text (ascii ''  A1234  '')"
      and t = "ascii ''A1234''" and rt = ascii_runtime
      and row = "sample_row ''  A1234  '' ''bolt'' ''1'' []"
      and df_cm_master = sample_cm_master and n = 0
      and df_a_parts_master = sample_a_master and k = 0]
  from short [THEN conjunct2, THEN conjunct2, THEN conjunct2, THEN conjunct2, THEN conjunct1]
  have s5: "cell_string (Text (ascii ''  A1234  '')) (ascii ''A1234'') \<and>
      length (ascii ''A1234'') = 5 \<longrightarrow>
      \<not> is_valid_part_number ascii_runtime (safe_str (Text (ascii ''  A1234  '')))" .
  from short [THEN conjunct2, THEN conjunct2, THEN conjunct2, THEN conjunct2, THEN conjunct2,
      THEN conjunct1]
  have s6:
    "\<not> is_valid_part_number ascii_runtime (safe_str (Text (ascii ''  A1234  ''))) \<and>
      iloc (sample_row ''  A1234  '' ''bolt'' ''1'' []) COL_PART_NUMBER
        = Inr (Text (ascii ''  A1234  '')) \<longrightarrow>
      cm_reference_step ascii_runtime sample_cm_master
        (sample_row ''  A1234  '' ''bolt'' ''1'' []) 0 = Inr None \<and>
      a_reference_step ascii_runtime sample_a_master
        (sample_row ''  A1234  '' ''bolt'' ''1'' []) 0 = Inr None" .
  from s5 c1 l1 have r1:
    "\<not> is_valid_part_number ascii_runtime (safe_str (Text (ascii ''  A1234  '')))"
    by blast
  from s6 r1 i1 have r2: "cm_reference_step ascii_runtime sample_cm_master
        (sample_row ''  A1234  '' ''bolt'' ''1'' []) 0 = Inr None \<and>
      a_reference_step ascii_runtime sample_a_master
        (sample_row ''  A1234  '' ''bolt'' ''1'' []) 0 = Inr None"
    by blast
  have k1: "cell_string (Other (ascii '' kit-0001 '')) (ascii ''kit-0001'') \<longrightarrow>
      (is_valid_part_number ascii_runtime (safe_str (Other (ascii '' kit-0001 ''))) \<longleftrightarrow>
         ascii ''kit-0001'' \<noteq> [] \<and> 6 \<le> length (ascii ''kit-0001'') \<and>
         length (ascii ''kit-0001'') \<le> 20 \<and> \<not> excluded_prefix (ascii ''kit-0001''))"
    using part_number_screen [where c = "Other (ascii '' kit-0001 '')"
      and t = "ascii ''kit-0001''" and rt = ascii_runtime, THEN conjunct1] .
  from k1 c2 x2 have r3:
    "\<not> is_valid_part_number ascii_runtime (safe_str (Other (ascii '' kit-0001 '')))"
    by blast
  have a1: "cell_string (Text (ascii '' A123456 '')) (ascii ''A123456'') \<longrightarrow>
      (is_valid_part_number ascii_runtime (safe_str (Text (ascii '' A123456 ''))) \<longleftrightarrow>
         ascii ''A123456'' \<noteq> [] \<and> 6 \<le> length (ascii ''A123456'') \<and>
         length (ascii ''A123456'') \<le> 20 \<and> \<not> excluded_prefix (ascii ''A123456''))"
    using part_number_screen [where c = "Text (ascii '' A123456 '')"
      and t = "ascii ''A123456''" and rt = ascii_runtime, THEN conjunct1] .
  from a1 c3 x3 l3 have r4:
    "is_valid_part_number ascii_runtime (safe_str (Text (ascii '' A123456 '')))"
    by blast
  from c1 l1 r1 i1 r2 c2 x2 r3 c3 x3 r4 show ?thesis by blast
qed

text \<open>
  C8. For every row, with the trimmed strings of its cells from column 11 on, the
  formatted option string is these strings without the ones equal to the empty string,
  \<open>-\<close> or \<open>nan\<close>, joined by \<open> / \<close> (space, slash, space): nothing before the only one,
  the separator before each later one. Every cell has a trimmed string; a row of no more
  than 11 cells has the empty option string. The option cells red, -, empty, nan, wide
  give \<open>red / wide\<close>; padded cells, a missing cell and a number among the options, with
  text in the columns before, give four survivors joined three times.
\<close>

theorem option_string:
  "(length pre = 11 \<and> list_all2 cell_string cells ts \<longrightarrow>
      format_options (extract_options (pre @ cells) OPTION_START_COL) =
        (case filter (\<lambda>t. t \<notin> {[], [45], [110, 97, 110]}) ts of
           [] \<Rightarrow> []
         | x # xs \<Rightarrow> x @ concat (map (\<lambda>y. [32, 47, 32] @ y) xs))) \<and>
   (\<exists>ts. list_all2 cell_string cells ts) \<and>
   (length row \<le> 11 \<longrightarrow> format_options (extract_options row OPTION_START_COL) = []) \<and>
   format_options
     (extract_options
        (replicate 11 Missing @
           [Text (ascii ''red''), Text (ascii ''-''), Text [], Text (ascii ''nan''),
            Text (ascii ''wide'')])
        OPTION_START_COL) = ascii ''red / wide'' \<and>
   ascii ''red / wide'' = [114, 101, 100, 32, 47, 32, 119, 105, 100, 101] \<and>
   extract_options
     (replicate 11 (Text (ascii ''x'')) @
        [Text (ascii ''  red  ''), Text (ascii '' ''), Text (ascii '' - ''), Missing,
         Text ([9] @ ascii ''wide'' @ [12288]), Other (ascii '' 5 ''),
         Text (ascii '' nan ''), Text (ascii ''a b'')])
     OPTION_START_COL = [ascii ''red'', ascii ''wide'', ascii ''5'', ascii ''a b''] \<and>
   format_options
     (extract_options
        (replicate 11 (Text (ascii ''x'')) @
           [Text (ascii ''  red  ''), Text (ascii '' ''), Text (ascii '' - ''), Missing,
            Text ([9] @ ascii ''wide'' @ [12288]), Other (ascii '' 5 ''),
            Text (ascii '' nan ''), Text (ascii ''a b'')])
        OPTION_START_COL) = ascii ''red / wide / 5 / a b'' \<and>
   format_options [ascii ''a'', ascii ''b'', ascii ''c''] = ascii ''a / b / c'' \<and>
   format_options [ascii ''a''] = ascii ''a'' \<and>
   format_options
     (extract_options (replicate 11 (Text (ascii ''x'')) @ [Text (ascii ''-''), Missing])
        OPTION_START_COL) = []"
proof -
  have g1: "length pre = 11 \<and> list_all2 cell_string cells ts \<longrightarrow>
      format_options (extract_options (pre @ cells) OPTION_START_COL) =
        (case filter (\<lambda>t. t \<notin> {[], [45], [110, 97, 110]}) ts of
           [] \<Rightarrow> []
         | x # xs \<Rightarrow> x @ concat (map (\<lambda>y. [32, 47, 32] @ y) xs))"
  proof
    assume a: "length pre = 11 \<and> list_all2 cell_string cells ts"
    then have d: "drop 11 (pre @ cells) = cells" by simp
    from a have m: "map safe_str cells = ts" by (simp add: cell_strings_safe_str)
    show "format_options (extract_options (pre @ cells) OPTION_START_COL) =
        (case filter (\<lambda>t. t \<notin> {[], [45], [110, 97, 110]}) ts of
           [] \<Rightarrow> []
         | x # xs \<Rightarrow> x @ concat (map (\<lambda>y. [32, 47, 32] @ y) xs))"
      unfolding format_extract d m ..
  qed
  have g2: "\<exists>ts. list_all2 cell_string cells ts"
    by (simp add: cell_strings_safe_str)
  have g3: "length row \<le> 11 \<longrightarrow> format_options (extract_options row OPTION_START_COL) = []"
    by (simp add: format_extract)
  have e1: "format_options
     (extract_options
        (replicate 11 Missing @
           [Text (ascii ''red''), Text (ascii ''-''), Text [], Text (ascii ''nan''),
            Text (ascii ''wide'')])
        OPTION_START_COL) = ascii ''red / wide''"
    by (simp add: format_options_def extract_options_def OPTION_START_COL_def
        extract_options_loop_filter strip_def ascii_def is_space_def)
  have e2: "ascii ''red / wide'' = [114, 101, 100, 32, 47, 32, 119, 105, 100, 101]"
    by (simp add: ascii_def)
  have e3: "extract_options
     (replicate 11 (Text (ascii ''x'')) @
        [Text (ascii ''  red  ''), Text (ascii '' ''), Text (ascii '' - ''), Missing,
         Text ([9] @ ascii ''wide'' @ [12288]), Other (ascii '' 5 ''),
         Text (ascii '' nan ''), Text (ascii ''a b'')])
     OPTION_START_COL = [ascii ''red'', ascii ''wide'', ascii ''5'', ascii ''a b'']"
    by (simp add: extract_options_def OPTION_START_COL_def
        extract_options_loop_filter strip_def ascii_def is_space_def)
  have e4: "format_options
     (extract_options
        (replicate 11 (Text (ascii ''x'')) @
           [Text (ascii ''  red  ''), Text (ascii '' ''), Text (ascii '' - ''), Missing,
            Text ([9] @ ascii ''wide'' @ [12288]), Other (ascii '' 5 ''),
            Text (ascii '' nan ''), Text (ascii ''a b'')])
        OPTION_START_COL) = ascii ''red / wide / 5 / a b''"
    unfolding e3 by (simp add: format_options_def ascii_def)
  have e5: "format_options [ascii ''a'', ascii ''b'', ascii ''c''] = ascii ''a / b / c''"
    and e6: "format_options [ascii ''a''] = ascii ''a''"
    by (simp_all add: format_options_def ascii_def)
  have e7: "format_options
     (extract_options (replicate 11 (Text (ascii ''x'')) @ [Text (ascii ''-''), Missing])
        OPTION_START_COL) = []"
    by (simp add: format_options_def extract_options_def OPTION_START_COL_def
        extract_options_loop_filter strip_def ascii_def is_space_def)
  show ?thesis by (intro conjI g1 g2 g3 e1 e2 e3 e4 e5 e6 e7)
qed

theorem option_string_witness:
  "length (replicate 11 (Text (ascii ''x''))) = 11 \<and>
   list_all2 cell_string
     [Text (ascii ''  red  ''), Missing, Text (ascii '' - ''), Other (ascii ''wide ''),
      Text (ascii ''nan''), Text (ascii '' L '')]
     [ascii ''red'', [], ascii ''-'', ascii ''wide'', ascii ''nan'', ascii ''L''] \<and>
   format_options
     (extract_options
        (replicate 11 (Text (ascii ''x'')) @
           [Text (ascii ''  red  ''), Missing, Text (ascii '' - ''), Other (ascii ''wide ''),
            Text (ascii ''nan''), Text (ascii '' L '')])
        OPTION_START_COL) = ascii ''red / wide / L'' \<and>
   length [Text (ascii ''x'')] \<le> 11 \<and>
   format_options (extract_options [Text (ascii ''x'')] OPTION_START_COL) = []"
proof -
  have l: "length (replicate 11 (Text (ascii ''x''))) = 11" by simp
  have c: "list_all2 cell_string
     [Text (ascii ''  red  ''), Missing, Text (ascii '' - ''), Other (ascii ''wide ''),
      Text (ascii ''nan''), Text (ascii '' L '')]
     [ascii ''red'', [], ascii ''-'', ascii ''wide'', ascii ''nan'', ascii ''L'']"
    using strip_trimmed [of "ascii ''  red  ''"] strip_trimmed [of "ascii '' - ''"]
      strip_trimmed [of "ascii ''wide ''"] strip_trimmed [of "ascii ''nan''"]
      strip_trimmed [of "ascii '' L ''"]
    by (simp add: strip_def ascii_def is_space_def)
  note inst = option_string [where pre = "replicate 11 (Text (ascii ''x''))"
      and cells = "[Text (ascii ''  red  ''), Missing, Text (ascii '' - ''),
        Other (ascii ''wide ''), Text (ascii ''nan''), Text (ascii '' L '')]"
      and ts = "[ascii ''red'', [], ascii ''-'', ascii ''wide'', ascii ''nan'', ascii ''L'']"
      and row = "[Text (ascii ''x'')]"]
  from inst [THEN conjunct1] l c have "format_options
     (extract_options
        (replicate 11 (Text (ascii ''x'')) @
           [Text (ascii ''  red  ''), Missing, Text (ascii '' - ''), Other (ascii ''wide ''),
            Text (ascii ''nan''), Text (ascii '' L '')])
        OPTION_START_COL) =
      (case filter (\<lambda>t. t \<notin> {[], [45], [110, 97, 110]})
          [ascii ''red'', [], ascii ''-'', ascii ''wide'', ascii ''nan'', ascii ''L''] of
         [] \<Rightarrow> []
       | x # xs \<Rightarrow> x @ concat (map (\<lambda>y. [32, 47, 32] @ y) xs))"
    by blast
  also have "\<dots> = ascii ''red / wide / L''" by (simp add: ascii_def)
  finally have f: "format_options
     (extract_options
        (replicate 11 (Text (ascii ''x'')) @
           [Text (ascii ''  red  ''), Missing, Text (ascii '' - ''), Other (ascii ''wide ''),
            Text (ascii ''nan''), Text (ascii '' L '')])
        OPTION_START_COL) = ascii ''red / wide / L''" .
  have s: "length [Text (ascii ''x'')] \<le> 11" by simp
  from inst [THEN conjunct2, THEN conjunct2, THEN conjunct1] s have e: "format_options (extract_options [Text (ascii ''x'')] OPTION_START_COL) = []"
    by blast
  from l c f s e show ?thesis by blast
qed

lemma unreadable_load:
  assumes "\<not> readable cm_file \<or> \<not> readable a_file"
  shows "\<exists>cause. load_master_dbs cm_file a_file = Inl (Wrapping MasterDBError cause) \<and>
    class_of cause \<in> {FileNotFoundError, InvalidFileFormatError}"
  using assms
  by (cases cm_file; cases a_file) (simp_all add: readable_def load_master_dbs_def)

lemma valid_has_matrix:
  assumes "is_valid (result (validate_input_file env))"
  shows "\<exists>df. df_matrix_of (validate_input_file env) = Some df"
  using assms
  by (auto simp: validate_input_file_def invalid_def Let_def
      split: excel_file.splits sum.splits if_splits)

text \<open>
  C2, as the code has it. When a master catalog file is missing or cannot be read,
  loading the catalogs raises a \<open>MasterDBError\<close> made from the error of the read (file
  not found, or invalid file format), and the Reference Resolver catches it and raises a
  \<open>ReferenceDBError\<close> made from it. The error that leaves the stage is of the class
  \<open>ReferenceDBError\<close>, a member of the family of \<open>PickingSystemError\<close>, and not of the
  class \<open>MasterDBError\<close>; a run whose input passes the validation ends with it.
\<close>

theorem master_catalog_failure:
  "(\<not> readable cm_file \<or> \<not> readable a_file \<longrightarrow>
      (\<exists>cause.
         class_of cause \<in> {FileNotFoundError, InvalidFileFormatError} \<and>
         load_master_dbs cm_file a_file = Inl (Wrapping MasterDBError cause) \<and>
         create_reference_dbs rt df_matrix cm_file a_file =
           Inl (Wrapping ReferenceDBError (Wrapping MasterDBError cause)))) \<and>
   (is_valid (result (validate_input_file env)) \<and>
    (\<not> readable (cm_master_file env) \<or> \<not> readable (a_master_file env)) \<longrightarrow>
      (\<exists>cause.
         class_of cause \<in> {FileNotFoundError, InvalidFileFormatError} \<and>
         run rt env = SystemFailed (Wrapping ReferenceDBError (Wrapping MasterDBError cause)))) \<and>
   class_of (Wrapping ReferenceDBError e) = ReferenceDBError \<and>
   class_of (Wrapping ReferenceDBError e) \<noteq> MasterDBError \<and>
   is_picking_system_error (Wrapping ReferenceDBError e)"
proof (intro conjI impI)
  assume a: "\<not> readable cm_file \<or> \<not> readable a_file"
  from unreadable_load [OF a] obtain cause
    where l: "load_master_dbs cm_file a_file = Inl (Wrapping MasterDBError cause)"
      and c: "class_of cause \<in> {FileNotFoundError, InvalidFileFormatError}"
    by blast
  have "create_reference_dbs rt df_matrix cm_file a_file =
      Inl (Wrapping ReferenceDBError (Wrapping MasterDBError cause))"
    by (simp add: create_reference_dbs_def l)
  with l c show "\<exists>cause.
         class_of cause \<in> {FileNotFoundError, InvalidFileFormatError} \<and>
         load_master_dbs cm_file a_file = Inl (Wrapping MasterDBError cause) \<and>
         create_reference_dbs rt df_matrix cm_file a_file =
           Inl (Wrapping ReferenceDBError (Wrapping MasterDBError cause))"
    by blast
next
  assume a: "is_valid (result (validate_input_file env)) \<and>
    (\<not> readable (cm_master_file env) \<or> \<not> readable (a_master_file env))"
  then obtain df where df: "df_matrix_of (validate_input_file env) = Some df"
    using valid_has_matrix by blast
  from a unreadable_load [of "cm_master_file env" "a_master_file env"] obtain cause
    where l: "load_master_dbs (cm_master_file env) (a_master_file env)
        = Inl (Wrapping MasterDBError cause)"
      and c: "class_of cause \<in> {FileNotFoundError, InvalidFileFormatError}"
    by blast
  have r: "create_reference_dbs rt df (cm_master_file env) (a_master_file env) =
      Inl (Wrapping ReferenceDBError (Wrapping MasterDBError cause))"
    by (simp add: create_reference_dbs_def l)
  have "run rt env = SystemFailed (Wrapping ReferenceDBError (Wrapping MasterDBError cause))"
    using a by (simp add: run_def Let_def df r)
  with c show "\<exists>cause.
         class_of cause \<in> {FileNotFoundError, InvalidFileFormatError} \<and>
         run rt env = SystemFailed (Wrapping ReferenceDBError (Wrapping MasterDBError cause))"
    by blast
next
  show "class_of (Wrapping ReferenceDBError e) = ReferenceDBError" by simp
  show "class_of (Wrapping ReferenceDBError e) \<noteq> MasterDBError" by simp
  show "is_picking_system_error (Wrapping ReferenceDBError e)"
    by (simp add: is_picking_system_error_def)
qed

theorem master_catalog_failure_witness:
  "is_valid (result (validate_input_file missing_catalog_environment)) \<and>
   \<not> readable (cm_master_file missing_catalog_environment) \<and>
   (\<exists>cause.
      class_of cause \<in> {FileNotFoundError, InvalidFileFormatError} \<and>
      run ascii_runtime missing_catalog_environment =
        SystemFailed (Wrapping ReferenceDBError (Wrapping MasterDBError cause))) \<and>
   \<not> readable (Unreadable :: a_master_row list excel_file) \<and>
   (\<exists>cause.
      class_of cause \<in> {FileNotFoundError, InvalidFileFormatError} \<and>
      load_master_dbs (Sheet sample_cm_master) Unreadable = Inl (Wrapping MasterDBError cause) \<and>
      create_reference_dbs ascii_runtime sample_matrix (Sheet sample_cm_master) Unreadable =
        Inl (Wrapping ReferenceDBError (Wrapping MasterDBError cause)))"
proof -
  have v: "is_valid (result (validate_input_file missing_catalog_environment))"
    by (simp add: eval_defs more_eval_defs)
  have n: "\<not> readable (cm_master_file missing_catalog_environment)"
    by (simp add: readable_def missing_catalog_environment_def sample_environment_def)
  have u: "\<not> readable (Unreadable :: a_master_row list excel_file)"
    by (simp add: readable_def)
  note run_part = master_catalog_failure [where env = missing_catalog_environment
      and rt = ascii_runtime, THEN conjunct2, THEN conjunct1]
  note stage_part = master_catalog_failure [where cm_file = "Sheet sample_cm_master"
      and a_file = "Unreadable :: a_master_row list excel_file" and rt = ascii_runtime
      and df_matrix = sample_matrix, THEN conjunct1]
  from run_part v n have r: "\<exists>cause.
      class_of cause \<in> {FileNotFoundError, InvalidFileFormatError} \<and>
      run ascii_runtime missing_catalog_environment =
        SystemFailed (Wrapping ReferenceDBError (Wrapping MasterDBError cause))"
    by blast
  from stage_part u have s: "\<exists>cause.
      class_of cause \<in> {FileNotFoundError, InvalidFileFormatError} \<and>
      load_master_dbs (Sheet sample_cm_master) Unreadable = Inl (Wrapping MasterDBError cause) \<and>
      create_reference_dbs ascii_runtime sample_matrix (Sheet sample_cm_master) Unreadable =
        Inl (Wrapping ReferenceDBError (Wrapping MasterDBError cause))"
    by blast
  from v n r u s show ?thesis by blast
qed

text \<open>
  C2 as stated fails: without the CM catalog file the error that leaves the Reference
  Resolver, and ends the run, is a \<open>ReferenceDBError\<close>, which is another stage's kind;
  the \<open>MasterDBError\<close> is the error it was made from.
\<close>

theorem master_catalog_failure_counterexample:
  "create_reference_dbs ascii_runtime sample_matrix Absent (Sheet sample_a_master) =
     Inl (Wrapping ReferenceDBError (Wrapping MasterDBError (Raised FileNotFoundError))) \<and>
   class_of (Wrapping ReferenceDBError (Wrapping MasterDBError (Raised FileNotFoundError)))
     = ReferenceDBError \<and>
   class_of (Wrapping ReferenceDBError (Wrapping MasterDBError (Raised FileNotFoundError)))
     \<noteq> MasterDBError \<and>
   run ascii_runtime missing_catalog_environment =
     SystemFailed (Wrapping ReferenceDBError (Wrapping MasterDBError (Raised FileNotFoundError)))"
proof -
  have c: "create_reference_dbs rt df Absent a_file =
     Inl (Wrapping ReferenceDBError (Wrapping MasterDBError (Raised FileNotFoundError)))"
    for rt df and a_file :: "a_master_row list excel_file"
    by (simp add: create_reference_dbs_def load_master_dbs_def)
  have v: "is_valid (result (validate_input_file missing_catalog_environment))"
    by (simp add: eval_defs more_eval_defs)
  obtain df where df: "df_matrix_of (validate_input_file missing_catalog_environment) = Some df"
    using valid_has_matrix [OF v] by blast
  have m: "cm_master_file missing_catalog_environment = Absent"
    by (simp add: missing_catalog_environment_def)
  have r: "run ascii_runtime missing_catalog_environment =
     SystemFailed (Wrapping ReferenceDBError (Wrapping MasterDBError (Raised FileNotFoundError)))"
    using v by (simp add: run_def Let_def df m c)
  show ?thesis using c r by simp
qed

lemma erase_filter:
  "filter (\<lambda>r. am_key r = k) (without_part_names a) =
     without_part_names (filter (\<lambda>r. am_key r = k) a)"
  by (induction a) (simp_all add: without_part_names_def)

lemma find_a_parts_master_without:
  "find_a_parts_master rt (without_part_names a) pn =
     (case find_a_parts_master rt a pn of
        Inl e \<Rightarrow> Inl e
      | Inr None \<Rightarrow> Inr None
      | Inr (Some info) \<Rightarrow> Inr (Some (info \<lparr> ai_part_name := [] \<rparr>)))"
proof -
  have f: "filter (\<lambda>r. am_key r = Text pn) (without_part_names a) =
      without_part_names (filter (\<lambda>r. am_key r = Text pn) a)"
    by (rule erase_filter)
  show ?thesis
  proof (cases "filter (\<lambda>r. am_key r = Text pn) a")
    case Nil
    show ?thesis
      unfolding find_a_parts_master_def f Nil by (simp add: without_part_names_def)
  next
    case (Cons row matched)
    show ?thesis
      unfolding find_a_parts_master_def f Cons
      by (simp add: without_part_names_def split: sum.splits)
  qed
qed

lemma a_reference_step_without:
  "a_reference_step rt (without_part_names a) row n = a_reference_step rt a row n"
  by (simp add: a_reference_step_def find_a_parts_master_without Let_def
      split: sum.splits option.splits)

lemma a_reference_loop_without:
  "a_reference_loop rt (without_part_names a) rows acc = a_reference_loop rt a rows acc"
  by (induction rows arbitrary: acc)
     (simp_all add: a_reference_step_without split: sum.splits option.splits)

lemma create_a_parts_reference_db_without:
  "create_a_parts_reference_db rt df (without_part_names a) =
     create_a_parts_reference_db rt df a"
  by (simp add: create_a_parts_reference_db_def a_reference_loop_without)

lemma a_reference_step_part_name:
  assumes "a_reference_step rt a row n = Inr (Some r)"
    and "iloc row COL_PART_NAME = Inr c"
  shows "ar_part_name r = safe_str c"
  using assms
  by (auto simp: a_reference_step_def Let_def split: sum.splits option.splits if_splits)

text \<open>
  C9. Two A-parts catalogs that are the same but for the values of their part-name
  column give the same reference tables, and two runs that differ only in these values
  end the same: the same reference, picking, validation and legacy tables, or the same
  failure. The part name of an A-parts reference row is the trimmed name cell of the row
  of the matrix it comes from.
\<close>

theorem catalog_part_name_unused:
  "(without_part_names a = without_part_names a' \<longrightarrow>
      create_a_parts_reference_db rt df a = create_a_parts_reference_db rt df a' \<and>
      create_reference_dbs rt df cm_file (Sheet a) = create_reference_dbs rt df cm_file (Sheet a') \<and>
      run rt (env \<lparr> a_master_file := Sheet a \<rparr>) = run rt (env \<lparr> a_master_file := Sheet a' \<rparr>)) \<and>
   (a_reference_step rt a row n = Inr (Some r) \<and> iloc row COL_PART_NAME = Inr c \<longrightarrow>
      ar_part_name r = safe_str c)"
proof (intro conjI impI)
  assume eq: "without_part_names a = without_part_names a'"
  have "create_a_parts_reference_db rt d a = create_a_parts_reference_db rt d (without_part_names a)"
    for d
    by (simp only: create_a_parts_reference_db_without)
  also have "\<dots> d = create_a_parts_reference_db rt d (without_part_names a')" for d
    by (simp only: eq)
  moreover have "create_a_parts_reference_db rt d (without_part_names a')
      = create_a_parts_reference_db rt d a'" for d
    by (simp only: create_a_parts_reference_db_without)
  ultimately have a: "create_a_parts_reference_db rt d a = create_a_parts_reference_db rt d a'"
    for d
    by (simp only:)
  show "create_a_parts_reference_db rt df a = create_a_parts_reference_db rt df a'"
    by (rule a)
  have c: "create_reference_dbs rt d f (Sheet a) = create_reference_dbs rt d f (Sheet a')"
    for d f
    by (cases f)
       (simp_all add: create_reference_dbs_def load_master_dbs_def a cong: sum.case_cong)
  show "create_reference_dbs rt df cm_file (Sheet a) = create_reference_dbs rt df cm_file (Sheet a')"
    by (rule c)
  have v: "validate_input_file (env \<lparr> a_master_file := x \<rparr>) = validate_input_file env" for x
    by (simp add: validate_input_file_def Let_def
        cong: if_cong excel_file.case_cong sum.case_cong)
  show "run rt (env \<lparr> a_master_file := Sheet a \<rparr>) = run rt (env \<lparr> a_master_file := Sheet a' \<rparr>)"
    unfolding run_def v
    by (simp add: c Let_def
        cong: if_cong option.case_cong sum.case_cong prod.case_cong)
next
  assume "a_reference_step rt a row n = Inr (Some r) \<and> iloc row COL_PART_NAME = Inr c"
  then show "ar_part_name r = safe_str c"
    using a_reference_step_part_name by blast
qed

theorem catalog_part_name_unused_witness:
  "without_part_names sample_a_master = without_part_names renamed_a_master \<and>
   map am_part_name sample_a_master = [Text (ascii ''bolt M6'')] \<and>
   map am_part_name renamed_a_master = [Text (ascii ''nut M8'')] \<and>
   run ascii_runtime (sample_environment \<lparr> a_master_file := Sheet sample_a_master \<rparr>) =
     run ascii_runtime (sample_environment \<lparr> a_master_file := Sheet renamed_a_master \<rparr>) \<and>
   iloc (sample_row '' A123456 '' ''bolt'' ''25'' [Missing, Text (ascii ''wide'')]) COL_PART_NAME
     = Inr (Text (ascii ''bolt'')) \<and>
   a_reference_step ascii_runtime sample_a_master
     (sample_row '' A123456 '' ''bolt'' ''25'' [Missing, Text (ascii ''wide'')]) 0 =
     Inr (Some \<lparr> ar_no = 1, ar_start_part_number = ascii ''S-1'', ar_factory = ascii ''F1'',
       ar_part_number = ascii ''A123456'', ar_part_name = ascii ''bolt'',
       ar_storage_location = ascii ''L3'', ar_rack = ascii ''R7'',
       ar_quantity_per_box = 10 \<rparr>) \<and>
   ar_part_name \<lparr> ar_no = 1, ar_start_part_number = ascii ''S-1'', ar_factory = ascii ''F1'',
       ar_part_number = ascii ''A123456'', ar_part_name = ascii ''bolt'',
       ar_storage_location = ascii ''L3'', ar_rack = ascii ''R7'',
       ar_quantity_per_box = 10 \<rparr> = safe_str (Text (ascii ''bolt''))"
proof -
  have w: "without_part_names sample_a_master = without_part_names renamed_a_master"
    by (simp add: without_part_names_def sample_a_master_def renamed_a_master_def)
  have p1: "map am_part_name sample_a_master = [Text (ascii ''bolt M6'')]"
    by (simp add: sample_a_master_def)
  have p2: "map am_part_name renamed_a_master = [Text (ascii ''nut M8'')]"
    by (simp add: renamed_a_master_def)
  have i: "iloc (sample_row '' A123456 '' ''bolt'' ''25'' [Missing, Text (ascii ''wide'')])
      COL_PART_NAME = Inr (Text (ascii ''bolt''))"
    by (simp add: iloc_def sample_row_def COL_PART_NAME_def)
  have s: "a_reference_step ascii_runtime sample_a_master
     (sample_row '' A123456 '' ''bolt'' ''25'' [Missing, Text (ascii ''wide'')]) 0 =
     Inr (Some \<lparr> ar_no = 1, ar_start_part_number = ascii ''S-1'', ar_factory = ascii ''F1'',
       ar_part_number = ascii ''A123456'', ar_part_name = ascii ''bolt'',
       ar_storage_location = ascii ''L3'', ar_rack = ascii ''R7'',
       ar_quantity_per_box = 10 \<rparr>)"
    by (simp add: eval_defs sample_row_def sample_a_master_def replicate_6
        ascii_runtime_simps ascii_digit_def decimal_value_def)
  note inst = catalog_part_name_unused [where a = sample_a_master and a' = renamed_a_master
      and rt = ascii_runtime and env = sample_environment
      and row = "sample_row '' A123456 '' ''bolt'' ''25'' [Missing, Text (ascii ''wide'')]"
      and n = 0 and c = "Text (ascii ''bolt'')"
      and r = "\<lparr> ar_no = 1, ar_start_part_number = ascii ''S-1'', ar_factory = ascii ''F1'',
       ar_part_number = ascii ''A123456'', ar_part_name = ascii ''bolt'',
       ar_storage_location = ascii ''L3'', ar_rack = ascii ''R7'',
       ar_quantity_per_box = 10 \<rparr>"]
  from inst [THEN conjunct1] w
  have r: "run ascii_runtime (sample_environment \<lparr> a_master_file := Sheet sample_a_master \<rparr>) =
     run ascii_runtime (sample_environment \<lparr> a_master_file := Sheet renamed_a_master \<rparr>)"
    by blast
  from inst [THEN conjunct2] s i
  have n: "ar_part_name \<lparr> ar_no = 1, ar_start_part_number = ascii ''S-1'',
       ar_factory = ascii ''F1'',
       ar_part_number = ascii ''A123456'', ar_part_name = ascii ''bolt'',
       ar_storage_location = ascii ''L3'', ar_rack = ascii ''R7'',
       ar_quantity_per_box = 10 \<rparr> = safe_str (Text (ascii ''bolt''))"
    by blast
  from w p1 p2 r i s n show ?thesis by blast
qed





text \<open>
  C10. When the table has at least 2 rows and no header error, and the part-number cell
  of row 1 is missing or its trimmed string is empty, the validation fails with the one
  error that the frame part number cannot be taken, and with no warning. A validation
  that succeeds has set the frame part number, which is the trimmed string of that cell
  and is not empty. A missing cell and a cell of white space fail; the sample matrix
  gives its frame part number.
\<close>

theorem frame_part_number_required:
  "(input_file env = Sheet df \<and> 2 \<le> length df \<and> header_errors df = [] \<and>
    iloc (df ! 1) COL_PART_NUMBER = Inr c \<and> cell_string c [] \<longrightarrow>
      result (validate_input_file env) =
        \<lparr> is_valid = False, errors = [FramePartNumberMissing], warnings = [] \<rparr>) \<and>
   (is_valid (result (validate_input_file env)) \<longrightarrow>
      (\<exists>frame. frame_part_number_of (validate_input_file env) = Some frame \<and> frame \<noteq> [])) \<and>
   (input_file env = Sheet df \<and> is_valid (result (validate_input_file env)) \<longrightarrow>
      (\<exists>c t. iloc (df ! 1) COL_PART_NUMBER = Inr c \<and> cell_string c t \<and> t \<noteq> [] \<and>
         frame_part_number_of (validate_input_file env) = Some t)) \<and>
   cell_string Missing [] \<and>
   result (validate_input_file missing_frame_environment) =
     \<lparr> is_valid = False, errors = [FramePartNumberMissing], warnings = [] \<rparr> \<and>
   result (validate_input_file (sample_environment \<lparr> input_file := Sheet
       [sample_header, sample_row ''   '' ''frame'' ''1'' []] \<rparr>)) =
     \<lparr> is_valid = False, errors = [FramePartNumberMissing], warnings = [] \<rparr> \<and>
   is_valid (result (validate_input_file sample_environment)) \<and>
   frame_part_number_of (validate_input_file sample_environment) =
     Some (ascii ''FRAME00001'')"
proof -
  have g1: "input_file env = Sheet df \<and> 2 \<le> length df \<and> header_errors df = [] \<and>
    iloc (df ! 1) COL_PART_NUMBER = Inr c \<and> cell_string c [] \<longrightarrow>
      result (validate_input_file env) =
        \<lparr> is_valid = False, errors = [FramePartNumberMissing], warnings = [] \<rparr>"
    by (simp add: validate_input_file_def invalid_def header_loop_errors Let_def
        cell_string_safe_str)
  have g2: "is_valid (result (validate_input_file env)) \<longrightarrow>
      (\<exists>frame. frame_part_number_of (validate_input_file env) = Some frame \<and> frame \<noteq> [])"
    by (auto simp: validate_input_file_def invalid_def Let_def
        split: excel_file.splits sum.splits if_splits)
  have g3: "input_file env = Sheet df \<and> is_valid (result (validate_input_file env)) \<longrightarrow>
      (\<exists>c t. iloc (df ! 1) COL_PART_NUMBER = Inr c \<and> cell_string c t \<and> t \<noteq> [] \<and>
         frame_part_number_of (validate_input_file env) = Some t)"
    by (auto simp: validate_input_file_def invalid_def Let_def cell_string_safe_str
        split: sum.splits if_splits)
  have g4: "cell_string Missing []" by simp
  have e1: "result (validate_input_file missing_frame_environment) =
     \<lparr> is_valid = False, errors = [FramePartNumberMissing], warnings = [] \<rparr>"
    by (simp add: eval_defs more_eval_defs)
  have e2: "result (validate_input_file (sample_environment \<lparr> input_file := Sheet
       [sample_header, sample_row ''   '' ''frame'' ''1'' []] \<rparr>)) =
     \<lparr> is_valid = False, errors = [FramePartNumberMissing], warnings = [] \<rparr>"
    by (simp add: eval_defs more_eval_defs)
  have e3: "is_valid (result (validate_input_file sample_environment))"
    by (simp add: eval_defs)
  have e4: "frame_part_number_of (validate_input_file sample_environment) =
     Some (ascii ''FRAME00001'')"
    by (simp add: eval_defs)
  show ?thesis by (intro conjI g1 g2 g3 g4 e1 e2 e3 e4)
qed

theorem frame_part_number_required_witness:
  "input_file missing_frame_environment = Sheet missing_frame_matrix \<and>
   2 \<le> length missing_frame_matrix \<and>
   header_errors missing_frame_matrix = [] \<and>
   iloc (missing_frame_matrix ! 1) COL_PART_NUMBER = Inr Missing \<and>
   cell_string Missing [] \<and>
   result (validate_input_file missing_frame_environment) =
     \<lparr> is_valid = False, errors = [FramePartNumberMissing], warnings = [] \<rparr> \<and>
   is_valid (result (validate_input_file sample_environment)) \<and>
   (\<exists>frame. frame_part_number_of (validate_input_file sample_environment) = Some frame \<and>
      frame \<noteq> [])"
proof -
  have m1: "input_file missing_frame_environment = Sheet missing_frame_matrix"
    by (simp add: missing_frame_environment_def sample_environment_def)
  have m2: "2 \<le> length missing_frame_matrix" by (simp add: missing_frame_matrix_def)
  have m3: "header_errors missing_frame_matrix = []"
    by (simp add: eval_defs more_eval_defs)
  have m4: "iloc (missing_frame_matrix ! 1) COL_PART_NUMBER = Inr Missing"
    by (simp add: missing_frame_matrix_def iloc_def COL_PART_NUMBER_def)
  have m5: "cell_string Missing []" by simp
  have v: "is_valid (result (validate_input_file sample_environment))"
    by (simp add: eval_defs)
  note missing = frame_part_number_required [where env = missing_frame_environment
      and df = missing_frame_matrix and c = Missing, THEN conjunct1]
  note valid = frame_part_number_required [where env = sample_environment,
      THEN conjunct2, THEN conjunct1]
  from missing m1 m2 m3 m4 m5
  have r1: "result (validate_input_file missing_frame_environment) =
     \<lparr> is_valid = False, errors = [FramePartNumberMissing], warnings = [] \<rparr>"
    by blast
  from valid v
  have r2: "\<exists>frame. frame_part_number_of (validate_input_file sample_environment) = Some frame \<and>
      frame \<noteq> []"
    by blast
  from m1 m2 m3 m4 m5 r1 v r2 show ?thesis by blast
qed

end
